theory Spec2Isabelle
  imports Complex_Main
begin

section \<open>svg-resize: the length parser and the resize engine\<close>

text \<open>
  A shallow embedding of \<^verbatim>\<open>svg-resize.py\<close>.

  Numbers. Every number of the script is a Python float (or the integer 0, which the
  script only adds to floats). Floats are modelled by the real numbers: the model is the
  script's arithmetic without rounding, overflow or underflow. Division is the one
  operation of the script's arithmetic that can raise, and it is modelled with its
  \<^verbatim>\<open>ZeroDivisionError\<close>.

  Text. Strings are lists of 8-bit characters. The character classes of the regular
  expressions are the ASCII ones: \<^verbatim>\<open>\s\<close> is space, tab, line feed, vertical tab, form
  feed and carriage return (which is also what \<^verbatim>\<open>strip()\<close> removes), \<^verbatim>\<open>\d\<close> is
  \<^verbatim>\<open>0\<close> to \<^verbatim>\<open>9\<close>.

  Formatting. The script writes numbers with \<^verbatim>\<open>'{}'.format\<close>. The decimal rendering of
  a float is not modelled: a formatted attribute value is kept as the list of its literal
  pieces and its numbers.
\<close>

subsection \<open>Python values, errors\<close>

datatype pyval = PyNone | PyStr string | PyBool bool

text \<open>The exceptions of the script, named after their messages, and the three exceptions of
  the interpreter that the modelled operations can raise.\<close>

datatype error =
    UnknownLengthFormat string    \<comment> \<open>\<^verbatim>\<open>Unknown length format: "{}"\<close>\<close>
  | UnknownLengthUnits string     \<comment> \<open>\<^verbatim>\<open>Unknown length units: {}\<close>\<close>
  | MissingWidthHeight            \<comment> \<open>\<^verbatim>\<open>SVG header must contain width and height attributes\<close>\<close>
  | BadWidthHeight                \<comment> \<open>\<^verbatim>\<open>SVG width and height should be in absolute units and non-zero\<close>\<close>
  | ZeroDivisionError
  | TypeError
  | KeyError

definition ebind :: "error + 'a \<Rightarrow> ('a \<Rightarrow> error + 'b) \<Rightarrow> error + 'b" where
  "ebind m f = (case m of Inl e \<Rightarrow> Inl e | Inr x \<Rightarrow> f x)"

definition pydiv :: "real \<Rightarrow> real \<Rightarrow> error + real" where
  "pydiv a b = (if b = 0 then Inl ZeroDivisionError else Inr (a / b))"

fun truthy :: "pyval \<Rightarrow> bool" where
  "truthy PyNone = False"
| "truthy (PyStr s) = (s \<noteq> [])"
| "truthy (PyBool b) = b"

subsection \<open>\<^verbatim>\<open>prepare_options\<close>\<close>

type_synonym options = "string \<rightharpoonup> pyval"

definition default_key :: "string \<Rightarrow> pyval \<Rightarrow> options \<Rightarrow> options" where
  \<comment> \<open>\<^verbatim>\<open>if k not in options: options[k] = v\<close>\<close>
  "default_key k v options = (if k \<notin> dom options then options(k \<mapsto> v) else options)"

definition prepare_options :: "options \<Rightarrow> options" where
  "prepare_options options =
     default_key ''frame'' (PyBool False)
       (default_key ''trim'' (PyBool False)
         (default_key ''margin'' (PyStr ''0'')
           (default_key ''shortest'' PyNone
             (default_key ''longest'' PyNone
               (default_key ''height'' PyNone
                 (default_key ''width'' PyNone options))))))"

subsection \<open>\<^verbatim>\<open>parse_length\<close>\<close>

definition is_space :: "char \<Rightarrow> bool" where
  "is_space c = (c \<in> set [CHR '' '', CHR 0x09, CHR 0x0A, CHR 0x0B, CHR 0x0C, CHR 0x0D])"

definition is_digit :: "char \<Rightarrow> bool" where
  "is_digit c = (c \<in> set ''0123456789'')"

definition digit_val :: "char \<Rightarrow> nat" where
  "digit_val c = of_char c - 48"

definition digits_val :: "string \<Rightarrow> nat" where
  "digits_val ds = foldl (\<lambda>a c. 10 * a + digit_val c) 0 ds"

text \<open>\<^verbatim>\<open>float(s)\<close> on a string of the shape \<^verbatim>\<open>-?\d+(?:\.\d+)?\<close>, the only strings the
  script converts: the decimal value.\<close>

definition unsigned_float :: "string \<Rightarrow> real" where
  "unsigned_float s =
     (let ip = takeWhile is_digit s; fp = drop (Suc (length ip)) s
      in real (digits_val ip) + real (digits_val fp) / 10 ^ length fp)"

definition float_of :: "string \<Rightarrow> real" where
  "float_of s = (case s of
       c # r \<Rightarrow> (if c = CHR ''-'' then - unsigned_float r else unsigned_float s)
     | [] \<Rightarrow> 0)"

definition units_list :: "string list" where
  "units_list = [''px'', ''in'', ''cm'', ''mm'', ''pt'', ''pc'', ''%'']"

fun match_units :: "string list \<Rightarrow> string \<Rightarrow> string option" where
  \<comment> \<open>the alternation \<^verbatim>\<open>(px|in|cm|mm|pt|pc|%)?\<close>: the first alternative that matches here\<close>
  "match_units [] s = None"
| "match_units (u # us) s = (if take (length u) s = u then Some u else match_units us s)"

text \<open>
  \<^verbatim>\<open>re.match(r'^\s*(-?\d+(?:\.\d+)?)\s*(px|in|cm|mm|pt|pc|%)?', value)\<close>: the match is
  anchored at the start only. The result is \<open>None\<close> when there is no match, and groups 1
  and 2 otherwise. Every quantifier is greedy, and after the digits of the integer part
  everything is optional, so the longest choice at each point is the match the regular
  expression engine returns.
\<close>

definition re_match_length :: "string \<Rightarrow> (string \<times> string option) option" where
  "re_match_length value =
     (let s1 = dropWhile is_space value;
          sign = (if s1 \<noteq> [] \<and> hd s1 = CHR ''-'' then ''-'' else '''');
          s2 = drop (length sign) s1;
          ip = takeWhile is_digit s2;
          s3 = dropWhile is_digit s2;
          fd = (if s3 \<noteq> [] \<and> hd s3 = CHR ''.'' then takeWhile is_digit (tl s3) else []);
          fp = (if fd = [] then [] else CHR ''.'' # fd);
          s4 = drop (length fp) s3;
          s5 = dropWhile is_space s4
      in if ip = [] then None
         else Some (sign @ ip @ fp, match_units units_list s5))"

definition parse_length :: "pyval \<Rightarrow> string \<Rightarrow> error + real" where
  "parse_length value def_units =
     (if \<not> truthy value then Inr 0
      else case value of
        PyStr s \<Rightarrow>
          (case re_match_length s of
             None \<Rightarrow> Inl (UnknownLengthFormat s)
           | Some (g1, g2) \<Rightarrow>
               (let num = float_of g1;
                    units = (case g2 of Some u \<Rightarrow> u | None \<Rightarrow> def_units)
                in if units = ''px'' then Inr num
                   else if units = ''pt'' then Inr (num * 1.25)
                   else if units = ''pc'' then Inr (num * 15.0)
                   else if units = ''in'' then Inr (num * 90.0)
                   else if units = ''mm'' then Inr (num * 3.543307)
                   else if units = ''cm'' then Inr (num * 35.43307)
                   else if units = ''%'' then Inr (- num / 100.0)
                   else Inl (UnknownLengthUnits units)))
      | _ \<Rightarrow> Inl TypeError)"

subsection \<open>The document\<close>

text \<open>
  An element of the tree as \<^verbatim>\<open>lxml\<close> holds it: tag, namespace map, attributes in document
  order, children. The tree handed to \<^verbatim>\<open>resize_svg\<close> comes from a parser, so its
  attribute values are text (\<open>string element\<close>). The tree it leaves behind holds formatted
  values (\<open>fmt_piece list element\<close>): \<^verbatim>\<open>'{}px'.format(x)\<close> is \<open>[Num x, Lit ''px'']\<close>, and
  a value the script does not touch is the single literal \<open>[Lit s]\<close>.
\<close>

datatype fmt_piece = Lit string | Num real

datatype 'v element =
  Element (tag: string) (nsmap: "(string \<times> string) list")
          (attrib: "(string \<times> 'v) list") (children: "'v element list")

definition as_read :: "string element \<Rightarrow> fmt_piece list element" where
  \<comment> \<open>the tree as parsed, before any write\<close>
  "as_read t = map_element (\<lambda>s. [Lit s]) t"

definition keys :: "'v element \<Rightarrow> string list" where
  "keys e = map fst (attrib e)"

definition get :: "string element \<Rightarrow> string \<Rightarrow> pyval" where
  \<comment> \<open>\<^verbatim>\<open>e.get(k)\<close>: \<^verbatim>\<open>None\<close> when the attribute is absent\<close>
  "get e k = (case map_of (attrib e) k of Some s \<Rightarrow> PyStr s | None \<Rightarrow> PyNone)"

definition get_default :: "string element \<Rightarrow> string \<Rightarrow> string \<Rightarrow> string" where
  \<comment> \<open>\<^verbatim>\<open>e.get(k, d)\<close>\<close>
  "get_default e k d = (case map_of (attrib e) k of Some s \<Rightarrow> s | None \<Rightarrow> d)"

fun update_attr :: "string \<Rightarrow> 'v \<Rightarrow> (string \<times> 'v) list \<Rightarrow> (string \<times> 'v) list" where
  "update_attr k v [] = [(k, v)]"
| "update_attr k v (p # ps) = (if fst p = k then (k, v) # ps else p # update_attr k v ps)"

definition set_attr :: "string \<Rightarrow> 'v \<Rightarrow> 'v element \<Rightarrow> 'v element" where
  \<comment> \<open>\<^verbatim>\<open>e.set(k, v)\<close>: replaces the value in place, or appends a new attribute\<close>
  "set_attr k v e = Element (tag e) (nsmap e) (update_attr k v (attrib e)) (children e)"

definition append_child :: "'v element \<Rightarrow> 'v element \<Rightarrow> 'v element" where
  "append_child c e = Element (tag e) (nsmap e) (attrib e) (children e @ [c])"

subsection \<open>Reading the source geometry (lines 55 to 74)\<close>

definition strip :: "string \<Rightarrow> string" where
  "strip s = rev (dropWhile is_space (rev (dropWhile is_space s)))"

definition is_sep :: "char \<Rightarrow> bool" where
  \<comment> \<open>the class \<^verbatim>\<open>[ ,\t]\<close>\<close>
  "is_sep c = (c \<in> set [CHR '' '', CHR '','', CHR 0x09])"

text \<open>\<^verbatim>\<open>re.split('[ ,\t]+', s)\<close>: the pieces between the maximal runs of separators; a
  run at the start or at the end leaves an empty piece there.\<close>

fun re_split :: "string \<Rightarrow> string list" where
  "re_split [] = [[]]"
| "re_split (c # cs) =
     (if is_sep c then (if cs \<noteq> [] \<and> is_sep (hd cs) then re_split cs else [] # re_split cs)
      else (case re_split cs of t # ts \<Rightarrow> (c # t) # ts | [] \<Rightarrow> [[c]]))"

type_synonym viewbox = "real \<times> real \<times> real \<times> real"

text \<open>Lines 59 to 66. The list \<^verbatim>\<open>viewbox\<close> has four numbers wherever it is not
  \<^verbatim>\<open>None\<close>; it is modelled as a quadruple, \<^verbatim>\<open>viewbox[0]\<close> first.\<close>

definition read_viewbox :: "string element \<Rightarrow> error + viewbox option" where
  "read_viewbox svg =
     (case re_split (strip (get_default svg ''viewBox'' [])) of
        [t0, t1, t2, t3] \<Rightarrow>
          ebind (parse_length (PyStr t0) ''px'') (\<lambda>v0.
          ebind (parse_length (PyStr t1) ''px'') (\<lambda>v1.
          ebind (parse_length (PyStr t2) ''px'') (\<lambda>v2.
          ebind (parse_length (PyStr t3) ''px'') (\<lambda>v3.
            Inr (if v2 * v3 \<le> 0 then None else Some (v0, v1, v2, v3))))))
      | _ \<Rightarrow> Inr None)"

definition source_geometry :: "string element \<Rightarrow> error + (real \<times> real \<times> viewbox)" where
  "source_geometry svg =
     (if ''width'' \<notin> set (keys svg) \<or> ''height'' \<notin> set (keys svg) then Inl MissingWidthHeight
      else
        ebind (parse_length (get svg ''width'') ''px'') (\<lambda>width.
        ebind (parse_length (get svg ''height'') ''px'') (\<lambda>height.
        ebind (read_viewbox svg) (\<lambda>viewbox.
        ebind (if width \<le> 0 \<or> height \<le> 0
               then (case viewbox of
                       Some (v0, v1, v2, v3) \<Rightarrow> Inr (v2, v3)
                     | None \<Rightarrow> Inl BadWidthHeight)
               else Inr (width, height)) (\<lambda>(width, height).
          Inr (width, height,
               (case viewbox of Some vb \<Rightarrow> vb | None \<Rightarrow> (0, 0, width, height))))))))"

subsection \<open>Reading the size and margin options (lines 77 to 95)\<close>

definition getitem :: "options \<Rightarrow> string \<Rightarrow> error + pyval" where
  \<comment> \<open>\<^verbatim>\<open>options[k]\<close>\<close>
  "getitem options k = (case options k of Some v \<Rightarrow> Inr v | None \<Rightarrow> Inl KeyError)"

definition target_options ::
  "real \<Rightarrow> real \<Rightarrow> options \<Rightarrow> error + (real \<times> real option \<times> real option)" where
  "target_options width height options =
     ebind (getitem options ''margin'') (\<lambda>m.
     ebind (parse_length m ''mm'') (\<lambda>margin.
     ebind (getitem options ''width'') (\<lambda>w.
     ebind (if truthy w then ebind (parse_length w ''mm'') (\<lambda>v. Inr (Some v))
            else Inr None) (\<lambda>twidth.
     ebind (getitem options ''height'') (\<lambda>h.
     ebind (if truthy h then ebind (parse_length h ''mm'') (\<lambda>v. Inr (Some v))
            else Inr None) (\<lambda>theight.
     ebind (getitem options ''longest'') (\<lambda>l.
     ebind (if truthy l
            then ebind (parse_length l ''mm'') (\<lambda>value.
                   Inr (if width > height then (Some value, theight)
                        else (twidth, Some value)))
            else Inr (twidth, theight)) (\<lambda>(twidth, theight).
     ebind (getitem options ''shortest'') (\<lambda>s.
     ebind (if truthy s
            then ebind (parse_length s ''mm'') (\<lambda>value.
                   Inr (if width < height then (Some value, theight)
                        else (twidth, Some value)))
            else Inr (twidth, theight)) (\<lambda>(twidth, theight).
       Inr (margin, twidth, theight)))))))))))"

subsection \<open>The content box (lines 98 to 116)\<close>

definition nonzero :: "real option \<Rightarrow> bool" where
  \<comment> \<open>the truth value of \<^verbatim>\<open>twidth\<close>: false for \<^verbatim>\<open>None\<close> and for zero\<close>
  "nonzero t = (case t of None \<Rightarrow> False | Some v \<Rightarrow> v \<noteq> 0)"

definition without_margin :: "real \<Rightarrow> real \<Rightarrow> real option \<Rightarrow> real option" where
  \<comment> \<open>lines 98 to 102 for the width, 103 to 107 for the height\<close>
  "without_margin source margin t =
     (if nonzero t
      then (case t of
              None \<Rightarrow> None
            | Some v \<Rightarrow>
                (if v < 0 then Some (- source * v)
                 else if v > 0 then Some (max 0 (v - margin * 2))
                 else Some v))
      else t)"

definition pydiv_opt :: "real option \<Rightarrow> real \<Rightarrow> error + real" where
  \<comment> \<open>a division whose left operand may be \<^verbatim>\<open>None\<close>\<close>
  "pydiv_opt t d = (case t of None \<Rightarrow> Inl TypeError | Some v \<Rightarrow> pydiv v d)"

definition content_box ::
  "real \<Rightarrow> real \<Rightarrow> real \<Rightarrow> real option \<Rightarrow> real option \<Rightarrow> error + (real option \<times> real option)" where
  "content_box width height margin twidth theight =
     (let twidth = without_margin width margin twidth;
          theight = without_margin height margin theight
      in ebind (if \<not> nonzero twidth
                then (if \<not> nonzero theight then Inr (Some width, Some height)
                      else ebind (pydiv_opt theight height) (\<lambda>q. Inr (Some (q * width), theight)))
                else Inr (twidth, theight)) (\<lambda>(twidth, theight).
         ebind (if \<not> nonzero theight
                then ebind (pydiv_opt twidth width) (\<lambda>q. Inr (Some (q * height)))
                else Inr theight) (\<lambda>theight.
           Inr (twidth, theight))))"

subsection \<open>Placement (lines 121 to 132)\<close>

record placement =
  page_width :: real
  page_height :: real
  offsetx :: real
  offsety :: real
  vb_margin :: real

definition pyvalue :: "real option \<Rightarrow> error + real" where
  \<comment> \<open>the operand of an arithmetic operation: \<^verbatim>\<open>None\<close> raises there\<close>
  "pyvalue t = (case t of None \<Rightarrow> Inl TypeError | Some v \<Rightarrow> Inr v)"

definition place :: "viewbox \<Rightarrow> real \<Rightarrow> real \<Rightarrow> real \<Rightarrow> error + placement" where
  "place viewbox twidth theight margin =
     (case viewbox of (v0, v1, v2, v3) \<Rightarrow>
        ebind (pydiv twidth theight) (\<lambda>target_ratio.
        ebind (pydiv v2 v3) (\<lambda>source_ratio.
        ebind (if target_ratio > source_ratio
               then ebind (pydiv v3 theight) (\<lambda>q.
                      (let pw = q * twidth
                       in Inr (pw, v3, (pw - v2) / 2, 0)))
               else ebind (pydiv v2 twidth) (\<lambda>q.
                      (let ph = q * theight
                       in Inr (v2, ph, 0, (ph - v3) / 2)))) (\<lambda>(pw, ph, ox, oy).
        ebind (pydiv pw twidth) (\<lambda>q.
          Inr \<lparr>page_width = pw, page_height = ph, offsetx = ox, offsety = oy,
               vb_margin = q * margin\<rparr>)))))"

subsection \<open>The frame (lines 137 to 145)\<close>

definition inkscape_ns :: string where
  "inkscape_ns = ''http://www.inkscape.org/namespaces/inkscape''"

definition sodipodi_ns :: string where
  "sodipodi_ns = ''http://sodipodi.sourceforge.net/DTD/sodipodi-0.dtd''"

definition frame_path :: "viewbox \<Rightarrow> placement \<Rightarrow> fmt_piece list" where
  \<comment> \<open>the format string of line 145 with its eight arguments\<close>
  "frame_path viewbox p =
     (case viewbox of (v0, v1, v2, v3) \<Rightarrow>
        (let bleed = min (page_width p) (page_height p) / 100;
             a0 = - v0 - vb_margin p - offsetx p - bleed;
             a1 = - v1 - vb_margin p - offsety p - bleed;
             a2 = page_width p + (vb_margin p + bleed) * 2;
             a3 = page_height p + (vb_margin p + bleed) * 2
         in [Lit ''M '', Num a0, Lit '' '', Num a1, Lit '' v '', Num a3, Lit '' h '', Num a2,
             Lit '' v -'', Num a3, Lit '' z M '', Num v0, Lit '' '', Num v1, Lit '' h '', Num v2,
             Lit '' v '', Num v3, Lit '' h -'', Num v2, Lit '' z'']))"

definition frame_layer :: "viewbox \<Rightarrow> placement \<Rightarrow> fmt_piece list element" where
  "frame_layer viewbox p =
     Element ''g'' [(''inkscape'', inkscape_ns), (''sodipodi'', sodipodi_ns)]
       [(''{'' @ inkscape_ns @ ''}groupmode'', [Lit ''layer'']),
        (''{'' @ inkscape_ns @ ''}label'', [Lit ''Frame'']),
        (''{'' @ sodipodi_ns @ ''}insensitive'', [Lit ''true''])]
       [Element ''path'' []
          [(''style'', [Lit ''fill:#ffffff;stroke:none'']), (''d'', frame_path viewbox p)] []]"

subsection \<open>\<^verbatim>\<open>resize_svg\<close>\<close>

text \<open>
  The function mutates the tree in place and may raise. The model returns the tree as the
  call leaves it, together with the exception if one was raised: an exception raised after
  a write leaves the written attributes in the tree.
\<close>

definition resize_svg ::
  "string element \<Rightarrow> options \<Rightarrow> fmt_piece list element \<times> error option" where
  "resize_svg tree options0 =
     (let options = prepare_options options0; svg = tree
      in case ebind (source_geometry svg) (\<lambda>(width, height, viewbox).
              ebind (target_options width height options) (\<lambda>(margin, twidth, theight).
              ebind (content_box width height margin twidth theight) (\<lambda>(twidth, theight).
              ebind (pyvalue twidth) (\<lambda>tw.
                Inr (viewbox, margin, tw, theight))))) of
           Inl e \<Rightarrow> (as_read svg, Some e)
         | Inr (viewbox, margin, twidth, theight) \<Rightarrow>
             (let svg1 = set_attr ''width'' [Num (twidth + margin * 2), Lit ''px''] (as_read svg)
              in case pyvalue theight of
                Inl e \<Rightarrow> (svg1, Some e)
              | Inr theight \<Rightarrow>
             (let svg2 = set_attr ''height'' [Num (theight + margin * 2), Lit ''px''] svg1
              in case place viewbox twidth theight margin of
                Inl e \<Rightarrow> (svg2, Some e)
              | Inr p \<Rightarrow>
             (case viewbox of (v0, v1, v2, v3) \<Rightarrow>
             (let svg3 = set_attr ''viewBox''
                           [Num (v0 - vb_margin p - offsetx p), Lit '' '',
                            Num (v1 - vb_margin p - offsety p), Lit '' '',
                            Num (page_width p + vb_margin p * 2), Lit '' '',
                            Num (page_height p + vb_margin p * 2)] svg2
              in case getitem options ''frame'' of
                   Inl e \<Rightarrow> (svg3, Some e)
                 | Inr f \<Rightarrow>
                     (if truthy f then (append_child (frame_layer viewbox p) svg3, None)
                      else (svg3, None)))))))"

subsection \<open>Notions used to state the properties\<close>

text \<open>The text of a decimal number, sign, integer digits and fraction digits, and the
  number it denotes.\<close>

definition decimal :: "bool \<Rightarrow> string \<Rightarrow> string \<Rightarrow> string" where
  "decimal neg ip fd =
     (if neg then ''-'' else []) @ ip @ (if fd = [] then [] else CHR ''.'' # fd)"

definition decimal_value :: "bool \<Rightarrow> string \<Rightarrow> string \<Rightarrow> real" where
  "decimal_value neg ip fd =
     (if neg then - 1 else 1) * (real (digits_val ip) + real (digits_val fd) / 10 ^ length fd)"

text \<open>The value of an option as the caller passed it, \<open>d\<close> when the key is absent.\<close>

definition option_value :: "options \<Rightarrow> string \<Rightarrow> pyval \<Rightarrow> pyval" where
  "option_value opts k d = (case opts k of Some v \<Rightarrow> v | None \<Rightarrow> d)"

text \<open>The three attribute writes of lines 119, 120 and 133, applied to the tree as read.\<close>

definition written ::
  "string element \<Rightarrow> viewbox \<Rightarrow> real \<Rightarrow> real \<Rightarrow> real \<Rightarrow> placement \<Rightarrow> fmt_piece list element" where
  "written tree viewbox margin twidth theight p =
     (case viewbox of (v0, v1, v2, v3) \<Rightarrow>
        set_attr ''viewBox''
          [Num (v0 - vb_margin p - offsetx p), Lit '' '',
           Num (v1 - vb_margin p - offsety p), Lit '' '',
           Num (page_width p + vb_margin p * 2), Lit '' '',
           Num (page_height p + vb_margin p * 2)]
          (set_attr ''height'' [Num (theight + margin * 2), Lit ''px'']
            (set_attr ''width'' [Num (twidth + margin * 2), Lit ''px''] (as_read tree))))"

text \<open>
  Steps 7 and 8 of the specification, in its words. Step 7: a negative value is a
  percentage, replaced by \<open>- value * source_dimension\<close>; from a positive value
  \<open>2 * margin\<close> is subtracted, clamped at 0. Step 8: if both targets remain unset, both
  default to the source width and height; if only one is set, the other is derived
  preserving the source aspect ratio. A target is unset when no option gave it a value.
\<close>

definition spec_step7 :: "real \<Rightarrow> real \<Rightarrow> real option \<Rightarrow> real option" where
  "spec_step7 source_dimension margin t =
     (case t of
        None \<Rightarrow> None
      | Some v \<Rightarrow>
          (if v < 0 then Some (- v * source_dimension)
           else if v > 0 then Some (max 0 (v - 2 * margin))
           else Some v))"

definition spec_step8 :: "real \<Rightarrow> real \<Rightarrow> real option \<Rightarrow> real option \<Rightarrow> real \<times> real" where
  "spec_step8 width height tw th =
     (case tw of
        None \<Rightarrow>
          (case th of
             None \<Rightarrow> (width, height)
           | Some h \<Rightarrow> (h * (width / height), h))
      | Some w \<Rightarrow>
          (case th of
             None \<Rightarrow> (w, w * (height / width))
           | Some h \<Rightarrow> (w, h)))"

text \<open>
  Step 8 as amended: a target counts as unset when it has no value or the value zero, and
  as set when it has a value other than zero.
\<close>

definition unset_or_zero :: "real option \<Rightarrow> bool" where
  "unset_or_zero t = (t = None \<or> t = Some 0)"

definition value_of :: "real option \<Rightarrow> real" where
  "value_of t = (case t of Some v \<Rightarrow> v | None \<Rightarrow> 0)"

definition step8_zero_unset :: "real \<Rightarrow> real \<Rightarrow> real option \<Rightarrow> real option \<Rightarrow> real \<times> real" where
  "step8_zero_unset width height tw th =
     (if unset_or_zero tw \<and> unset_or_zero th then (width, height)
      else if unset_or_zero tw then (value_of th * (width / height), value_of th)
      else if unset_or_zero th then (value_of tw, value_of tw * (height / width))
      else (value_of tw, value_of th))"

text \<open>A resolved target comes to zero when it is 0, or when it is positive and at most
  twice the margin, so that the subtraction of line 102 or 107 is clamped at 0.\<close>

definition comes_to_zero :: "real \<Rightarrow> real option \<Rightarrow> bool" where
  "comes_to_zero margin t =
     (case t of None \<Rightarrow> False | Some v \<Rightarrow> v = 0 \<or> (0 < v \<and> v \<le> 2 * margin))"

text \<open>An option is set when its value is true in Python's sense (present, not \<^verbatim>\<open>None\<close>,
  not the empty string); its length is its text read in millimetres by default.\<close>

definition is_set :: "options \<Rightarrow> string \<Rightarrow> bool" where
  "is_set opts k = truthy (option_value opts k PyNone)"

definition option_length :: "options \<Rightarrow> string \<Rightarrow> error + real" where
  "option_length opts k = parse_length (option_value opts k PyNone) ''mm''"

text \<open>A resolved target is absolute when it is a positive length: neither absent, nor
  zero, nor a percentage.\<close>

definition absolute :: "real option \<Rightarrow> bool" where
  "absolute t = (case t of Some v \<Rightarrow> 0 < v | None \<Rightarrow> False)"

section \<open>Properties\<close>

subsection \<open>Auxiliary facts\<close>

lemma ebind_simps [simp]: "ebind (Inl e) f = Inl e" "ebind (Inr x) f = f x"
  by (simp_all add: ebind_def)

lemma ebind_eq_Inr: "ebind m f = Inr y \<longleftrightarrow> (\<exists>x. m = Inr x \<and> f x = Inr y)"
  by (cases m) simp_all

lemma not_digit_simps [simp]:
  "\<not> is_digit CHR ''-''" "\<not> is_digit CHR ''.''" "\<not> is_space CHR ''-''" "\<not> is_space CHR ''.''"
  by (simp_all add: is_digit_def is_space_def)

lemma digit_not_space: "is_digit c \<Longrightarrow> \<not> is_space c"
  by (auto simp: is_digit_def is_space_def)

lemma digit_not_minus: "is_digit c \<Longrightarrow> c \<noteq> CHR ''-''"
  by (auto simp: is_digit_def)

lemma takeWhile_digits:
  assumes "list_all is_digit ds" "r = [] \<or> \<not> is_digit (hd r)"
  shows "takeWhile is_digit (ds @ r) = ds" "dropWhile is_digit (ds @ r) = r"
  using assms by (induction ds) (auto simp: neq_Nil_conv takeWhile_eq_Nil_iff dropWhile_eq_self_iff)

lemma unsigned_float_decimal:
  assumes "list_all is_digit ip"
  shows "unsigned_float (ip @ (if fd = [] then [] else CHR ''.'' # fd))
         = real (digits_val ip) + real (digits_val fd) / 10 ^ length fd"
proof -
  have "takeWhile is_digit (ip @ (if fd = [] then [] else CHR ''.'' # fd)) = ip"
    using assms by (intro takeWhile_digits) auto
  then show ?thesis by (simp add: unsigned_float_def Let_def)
qed

lemma float_of_decimal:
  assumes "ip \<noteq> []" "list_all is_digit ip"
  shows "float_of (decimal neg ip fd) = decimal_value neg ip fd"
proof (cases neg)
  case True
  then show ?thesis using assms
    by (simp add: float_of_def decimal_def decimal_value_def unsigned_float_decimal)
next
  case False
  from assms obtain c cs where ip: "ip = c # cs" and c: "is_digit c"
    by (cases ip) auto
  have "float_of (ip @ (if fd = [] then [] else CHR ''.'' # fd))
        = unsigned_float (ip @ (if fd = [] then [] else CHR ''.'' # fd))"
    using c by (auto simp add: float_of_def ip dest: digit_not_minus)
  with False show ?thesis using assms
    by (simp add: decimal_def decimal_value_def unsigned_float_decimal)
qed

lemma re_match_length_decimal:
  assumes "ip \<noteq> []" "list_all is_digit ip" "list_all is_digit fd"
    and "r = [] \<or> (\<not> is_digit (hd r) \<and> hd r \<noteq> CHR ''.'')"
  shows "re_match_length (decimal neg ip fd @ r)
         = Some (decimal neg ip fd, match_units units_list (dropWhile is_space r))"
proof -
  let ?fp = "if fd = [] then [] else CHR ''.'' # fd"
  let ?sign = "if neg then ''-'' else []"
  let ?s = "decimal neg ip fd @ r"
  from assms obtain c cs where ip: "ip = c # cs" and c: "is_digit c"
    by (cases ip) auto
  have s1: "dropWhile is_space ?s = ?s"
    using c by (auto simp: decimal_def ip dest: digit_not_space)
  have sign: "(if ?s \<noteq> [] \<and> hd ?s = CHR ''-'' then ''-'' else []) = ?sign"
    using c by (auto simp: decimal_def ip dest: digit_not_minus)
  have s2: "drop (length ?sign) ?s = ip @ ?fp @ r"
    by (simp add: decimal_def)
  have r': "?fp @ r = [] \<or> \<not> is_digit (hd (?fp @ r))"
    using assms(4) by auto
  have tk: "takeWhile is_digit (ip @ ?fp @ r) = ip" "dropWhile is_digit (ip @ ?fp @ r) = ?fp @ r"
    using takeWhile_digits[OF assms(2) r'] by simp_all
  have r2: "r = [] \<or> \<not> is_digit (hd r)" using assms(4) by auto
  have fd: "(if ?fp @ r \<noteq> [] \<and> hd (?fp @ r) = CHR ''.''
             then takeWhile is_digit (tl (?fp @ r)) else []) = fd"
    using assms(4) takeWhile_digits[OF assms(3) r2] by (auto simp: neq_Nil_conv)
  show ?thesis
    unfolding re_match_length_def Let_def s1 sign s2 tk fd
    using assms(1) by (simp add: decimal_def)
qed

lemma parse_length_decimal:
  assumes "ip \<noteq> []" "list_all is_digit ip" "list_all is_digit fd"
    and "r = [] \<or> (\<not> is_digit (hd r) \<and> hd r \<noteq> CHR ''.'')"
    and "match_units units_list (dropWhile is_space r) = g2"
  shows "parse_length (PyStr (decimal neg ip fd @ r)) du =
     (let num = decimal_value neg ip fd;
          units = (case g2 of Some u \<Rightarrow> u | None \<Rightarrow> du)
      in if units = ''px'' then Inr num
         else if units = ''pt'' then Inr (num * 1.25)
         else if units = ''pc'' then Inr (num * 15.0)
         else if units = ''in'' then Inr (num * 90.0)
         else if units = ''mm'' then Inr (num * 3.543307)
         else if units = ''cm'' then Inr (num * 35.43307)
         else if units = ''%'' then Inr (- num / 100.0)
         else Inl (UnknownLengthUnits units))"
proof -
  have ne: "decimal neg ip fd @ r \<noteq> []" using assms(1) by (simp add: decimal_def)
  show ?thesis
    unfolding parse_length_def
    using ne re_match_length_decimal[OF assms(1-4), of neg] assms(5) float_of_decimal[OF assms(1,2), of neg fd]
    by (simp add: Let_def)
qed

lemmas parse_eval = parse_length_def re_match_length_def float_of_def unsigned_float_def
  digits_val_def digit_val_def is_digit_def is_space_def units_list_def Let_def

subsection \<open>The conversion factors of \<^verbatim>\<open>parse_length\<close>\<close>

text \<open>
  Claim C3. \<^verbatim>\<open>parse_length\<close> is linear in the number it reads, with the documented
  factors: for the text of every decimal number \<open>n\<close> (optional minus sign, integer digits,
  optional fraction), the text followed by \<^verbatim>\<open>px\<close> gives \<open>n\<close>, by \<^verbatim>\<open>pt\<close> gives
  \<open>n * 1.25\<close>, by \<^verbatim>\<open>pc\<close> gives \<open>n * 15\<close>, by \<^verbatim>\<open>in\<close> gives \<open>n * 90\<close>, by \<^verbatim>\<open>mm\<close> gives
  \<open>n * 3.543307\<close>, by \<^verbatim>\<open>cm\<close> gives \<open>n * 35.43307\<close> and by \<^verbatim>\<open>%\<close> gives \<open>- (n / 100)\<close>,
  whatever the default unit; without a suffix the default unit is used as if it were the
  suffix; \<^verbatim>\<open>50%\<close> gives \<open>- 0.5\<close>, \<^verbatim>\<open>1in\<close> gives \<open>90\<close>, and the empty string and \<^verbatim>\<open>None\<close>
  give \<open>0\<close>.
\<close>

theorem parse_length_factors:
  assumes "ip \<noteq> []" and "list_all is_digit ip" and "list_all is_digit fd"
  shows "parse_length (PyStr (decimal neg ip fd @ ''px'')) du = Inr (decimal_value neg ip fd)
       \<and> parse_length (PyStr (decimal neg ip fd @ ''pt'')) du = Inr (decimal_value neg ip fd * 1.25)
       \<and> parse_length (PyStr (decimal neg ip fd @ ''pc'')) du = Inr (decimal_value neg ip fd * 15.0)
       \<and> parse_length (PyStr (decimal neg ip fd @ ''in'')) du = Inr (decimal_value neg ip fd * 90.0)
       \<and> parse_length (PyStr (decimal neg ip fd @ ''mm'')) du = Inr (decimal_value neg ip fd * 3.543307)
       \<and> parse_length (PyStr (decimal neg ip fd @ ''cm'')) du = Inr (decimal_value neg ip fd * 35.43307)
       \<and> parse_length (PyStr (decimal neg ip fd @ ''%'')) du = Inr (- (decimal_value neg ip fd / 100))
       \<and> (du \<in> set units_list \<longrightarrow>
            parse_length (PyStr (decimal neg ip fd)) du
            = parse_length (PyStr (decimal neg ip fd @ du)) ''px'')
       \<and> parse_length (PyStr ''50%'') du = Inr (- 0.5)
       \<and> parse_length (PyStr ''1in'') du = Inr 90.0
       \<and> parse_length (PyStr []) du = Inr 0
       \<and> parse_length PyNone du = Inr 0"
proof -
  note pd = parse_length_decimal[OF assms]
  have px: "parse_length (PyStr (decimal neg ip fd @ ''px'')) d = Inr (decimal_value neg ip fd)" for d
    by (subst pd[where ?g2.0 = "Some ''px''"]) (simp_all add: is_digit_def is_space_def units_list_def)
  have pt: "parse_length (PyStr (decimal neg ip fd @ ''pt'')) d = Inr (decimal_value neg ip fd * 1.25)" for d
    by (subst pd[where ?g2.0 = "Some ''pt''"]) (simp_all add: is_digit_def is_space_def units_list_def)
  have pc: "parse_length (PyStr (decimal neg ip fd @ ''pc'')) d = Inr (decimal_value neg ip fd * 15.0)" for d
    by (subst pd[where ?g2.0 = "Some ''pc''"]) (simp_all add: is_digit_def is_space_def units_list_def)
  have inch: "parse_length (PyStr (decimal neg ip fd @ ''in'')) d = Inr (decimal_value neg ip fd * 90.0)" for d
    by (subst pd[where ?g2.0 = "Some ''in''"]) (simp_all add: is_digit_def is_space_def units_list_def)
  have mm: "parse_length (PyStr (decimal neg ip fd @ ''mm'')) d = Inr (decimal_value neg ip fd * 3.543307)" for d
    by (subst pd[where ?g2.0 = "Some ''mm''"]) (simp_all add: is_digit_def is_space_def units_list_def)
  have cm: "parse_length (PyStr (decimal neg ip fd @ ''cm'')) d = Inr (decimal_value neg ip fd * 35.43307)" for d
    by (subst pd[where ?g2.0 = "Some ''cm''"]) (simp_all add: is_digit_def is_space_def units_list_def)
  have pct: "parse_length (PyStr (decimal neg ip fd @ ''%'')) d = Inr (- (decimal_value neg ip fd / 100))" for d
    by (subst pd[where ?g2.0 = "Some ''%''"]) (simp_all add: is_digit_def is_space_def units_list_def)
  have bare: "parse_length (PyStr (decimal neg ip fd)) du
              = parse_length (PyStr (decimal neg ip fd @ du)) ''px''" if "du \<in> set units_list"
  proof -
    have none: "match_units units_list (dropWhile is_space []) = None"
      by (simp add: units_list_def)
    have "parse_length (PyStr (decimal neg ip fd @ [])) du =
          parse_length (PyStr (decimal neg ip fd @ du)) ''px''"
      using that by (subst pd[OF _ none]) (auto simp: px pt pc inch mm cm pct units_list_def)
    then show ?thesis by simp
  qed
  have ex: "parse_length (PyStr ''50%'') du = Inr (- 0.5)" "parse_length (PyStr ''1in'') du = Inr 90.0"
    "parse_length (PyStr []) du = Inr 0" "parse_length PyNone du = Inr 0"
    by (simp_all add: parse_eval)
  show ?thesis using px pt pc inch mm cm pct bare ex by blast
qed

theorem parse_length_factors_witness:
  "list_all is_digit ''10'' \<and> list_all is_digit ''5'' \<and> ''mm'' \<in> set units_list
   \<and> parse_length (PyStr ''-10.5mm'') ''mm'' = Inr (- 10.5 * 3.543307)
   \<and> parse_length (PyStr ''-10.5in'') ''mm'' = Inr (- 10.5 * 90)
   \<and> parse_length (PyStr ''-10.5'') ''mm'' = parse_length (PyStr ''-10.5mm'') ''px''"
  using parse_length_factors[of "''10''" "''5''" True "''mm''"]
  by (simp add: decimal_def decimal_value_def digits_val_def digit_val_def is_digit_def units_list_def)

subsection \<open>Text after the number\<close>

text \<open>
  Claim C8, evaluated on the script. The claim asks for an error on every text that is not
  a number with an optional supported unit, and for the unknown-units error on a suffix
  such as \<^verbatim>\<open>em\<close>. The regular expression is not anchored at the end and its unit group is
  optional, so whatever follows the number is dropped: \<^verbatim>\<open>10em\<close> is read as \<open>10\<close> in the
  default unit and \<^verbatim>\<open>12abc\<close> as \<open>12\<close>. The unknown-units error of line 50 is raised only
  for an unsupported default unit.
\<close>

theorem parse_length_unsupported_suffix:
  "parse_length (PyStr ''10em'') ''px'' = Inr 10
   \<and> parse_length (PyStr ''10em'') ''mm'' = Inr (10 * 3.543307)
   \<and> parse_length (PyStr ''12abc'') ''px'' = Inr 12
   \<and> parse_length (PyStr ''10'') ''em'' = Inl (UnknownLengthUnits ''em'')"
  by (simp add: parse_eval)

subsection \<open>Auxiliary facts about \<^verbatim>\<open>resize_svg\<close>\<close>

lemma default_key_apply:
  "default_key k v m k' = (if k' = k then Some (option_value m k v) else m k')"
  by (auto simp: default_key_def option_value_def dom_def split: option.splits)

lemma option_value_skip:
  "k' \<noteq> k \<Longrightarrow> option_value (default_key k v m) k' d = option_value m k' d"
  by (simp add: option_value_def default_key_apply)

lemma getitem_prepared:
  "getitem (prepare_options opts) ''width'' = Inr (option_value opts ''width'' PyNone)"
  "getitem (prepare_options opts) ''height'' = Inr (option_value opts ''height'' PyNone)"
  "getitem (prepare_options opts) ''longest'' = Inr (option_value opts ''longest'' PyNone)"
  "getitem (prepare_options opts) ''shortest'' = Inr (option_value opts ''shortest'' PyNone)"
  "getitem (prepare_options opts) ''margin'' = Inr (option_value opts ''margin'' (PyStr ''0''))"
  "getitem (prepare_options opts) ''frame'' = Inr (option_value opts ''frame'' (PyBool False))"
  by (simp_all add: getitem_def prepare_options_def default_key_apply option_value_skip)

lemma read_viewbox_Some:
  assumes "read_viewbox svg = Inr (Some (v0, v1, v2, v3))"
  shows "v2 * v3 > 0"
  using assms unfolding read_viewbox_def
  by (auto simp: ebind_eq_Inr split: list.splits if_splits)

lemma source_geometry_Inr:
  assumes "source_geometry svg = Inr (w, h, (v0, v1, v2, v3))"
  shows "w \<noteq> 0 \<and> h \<noteq> 0 \<and> v2 * v3 > 0"
proof -
  from assms obtain w0 h0 vb where
    vb: "read_viewbox svg = Inr vb" and
    r: "ebind (if w0 \<le> 0 \<or> h0 \<le> 0
               then (case vb of Some (v0, v1, v2, v3) \<Rightarrow> Inr (v2, v3) | None \<Rightarrow> Inl BadWidthHeight)
               else Inr (w0, h0)) (\<lambda>(width, height).
          Inr (width, height, (case vb of Some vb \<Rightarrow> vb | None \<Rightarrow> (0, 0, width, height))))
        = Inr (w, h, (v0, v1, v2, v3))"
    unfolding source_geometry_def
    by (cases "''width'' \<notin> set (keys svg) \<or> ''height'' \<notin> set (keys svg)";
        cases "parse_length (get svg ''width'') ''px''";
        cases "parse_length (get svg ''height'') ''px''";
        cases "read_viewbox svg") simp_all
  show ?thesis
  proof (cases vb)
    case None
    with r have "w0 > 0 \<and> h0 > 0 \<and> w = w0 \<and> h = h0 \<and> v2 = w0 \<and> v3 = h0"
      by (cases "w0 \<le> 0 \<or> h0 \<le> 0") auto
    then show ?thesis by simp
  next
    case (Some q)
    obtain a b c d where q: "q = (a, b, c, d)" by (cases q) auto
    from vb Some q have pos: "c * d > 0" by (auto dest: read_viewbox_Some)
    from r Some q have "v2 = c \<and> v3 = d \<and> ((w = c \<and> h = d) \<or> (w > 0 \<and> h > 0))"
      by (cases "w0 \<le> 0 \<or> h0 \<le> 0") auto
    with pos show ?thesis by (auto simp: zero_less_mult_iff)
  qed
qed

lemma content_box_total:
  assumes "w \<noteq> 0" "h \<noteq> 0"
  shows "\<exists>tw th. content_box w h m a b = Inr (Some tw, Some th) \<and> tw \<noteq> 0 \<and> th \<noteq> 0"
proof -
  obtain a' where a': "without_margin w m a = a'" by simp
  obtain b' where b': "without_margin h m b = b'" by simp
  show ?thesis
    unfolding content_box_def Let_def a' b'
    using assms
    by (cases a'; cases b') (auto simp: nonzero_def pydiv_opt_def pydiv_def)
qed

lemma place_total:
  assumes "tw \<noteq> 0" "th \<noteq> 0" "v3 \<noteq> 0"
  shows "place (v0, v1, v2, v3) tw th m =
     Inr (if tw / th > v2 / v3
          then \<lparr>page_width = v3 / th * tw, page_height = v3,
                offsetx = (v3 / th * tw - v2) / 2, offsety = 0,
                vb_margin = v3 / th * tw / tw * m\<rparr>
          else \<lparr>page_width = v2, page_height = v2 / tw * th,
                offsetx = 0, offsety = (v2 / tw * th - v3) / 2,
                vb_margin = v2 / tw * m\<rparr>)"
  using assms by (simp add: place_def pydiv_def Let_def)

lemma map_of_update_attr:
  "map_of (update_attr k v ps) k' = (if k' = k then Some v else map_of ps k')"
  by (induction ps) auto

lemma attrib_written:
  "map_of (attrib (written tree (v0, v1, v2, v3) m tw th p)) ''width'' = Some [Num (tw + m * 2), Lit ''px'']"
  "map_of (attrib (written tree (v0, v1, v2, v3) m tw th p)) ''height'' = Some [Num (th + m * 2), Lit ''px'']"
  "map_of (attrib (written tree (v0, v1, v2, v3) m tw th p)) ''viewBox'' =
     Some [Num (v0 - vb_margin p - offsetx p), Lit '' '',
           Num (v1 - vb_margin p - offsety p), Lit '' '',
           Num (page_width p + vb_margin p * 2), Lit '' '',
           Num (page_height p + vb_margin p * 2)]"
  by (simp_all add: written_def set_attr_def map_of_update_attr)

lemma children_written: "children (written tree vb m tw th p) = children (as_read tree)"
  by (cases vb) (simp add: written_def set_attr_def)

lemma append_child_sel:
  "attrib (append_child c e) = attrib e" "children (append_child c e) = children e @ [c]"
  by (simp_all add: append_child_def)

lemma resize_svg_success:
  assumes "source_geometry tree = Inr (w, h, vb)"
    and "target_options w h (prepare_options opts) = Inr (m, a, b)"
    and "content_box w h m a b = Inr (Some tw, Some th)"
    and "place vb tw th m = Inr p"
  shows "resize_svg tree opts =
     (if truthy (option_value opts ''frame'' (PyBool False))
      then (append_child (frame_layer vb p) (written tree vb m tw th p), None)
      else (written tree vb m tw th p, None))"
  using assms
  by (cases vb) (simp add: resize_svg_def Let_def pyvalue_def getitem_prepared written_def)

lemma resize_svg_source_error:
  assumes "source_geometry tree = Inl e"
  shows "resize_svg tree opts = (as_read tree, Some e)"
  using assms by (simp add: resize_svg_def Let_def)

lemma resize_svg_options_error:
  assumes "source_geometry tree = Inr (w, h, vb)"
    and "target_options w h (prepare_options opts) = Inl e"
  shows "resize_svg tree opts = (as_read tree, Some e)"
  using assms by (simp add: resize_svg_def Let_def)

text \<open>Once the source geometry and the options are read, the call completes.\<close>

lemma resize_svg_completes:
  assumes sg: "source_geometry tree = Inr (w, h, (v0, v1, v2, v3))"
    and to: "target_options w h (prepare_options opts) = Inr (m, a, b)"
  shows "\<exists>tw th p. content_box w h m a b = Inr (Some tw, Some th) \<and> tw \<noteq> 0 \<and> th \<noteq> 0 \<and> v3 \<noteq> 0
           \<and> place (v0, v1, v2, v3) tw th m = Inr p
           \<and> resize_svg tree opts =
               (if truthy (option_value opts ''frame'' (PyBool False))
                then (append_child (frame_layer (v0, v1, v2, v3) p)
                        (written tree (v0, v1, v2, v3) m tw th p), None)
                else (written tree (v0, v1, v2, v3) m tw th p, None))"
proof -
  from source_geometry_Inr[OF sg] have nz: "w \<noteq> 0" "h \<noteq> 0" "v3 \<noteq> 0" by auto
  from content_box_total[OF nz(1,2)] obtain tw th where
    cb: "content_box w h m a b = Inr (Some tw, Some th)" and t: "tw \<noteq> 0" "th \<noteq> 0" by blast
  from place_total[OF t nz(3)] obtain p where p: "place (v0, v1, v2, v3) tw th m = Inr p" by blast
  from resize_svg_success[OF sg to cb p] cb t nz(3) p show ?thesis by blast
qed

lemmas source_eval = source_geometry_def read_viewbox_def keys_def get_def get_default_def
  strip_def is_sep_def parse_eval

lemmas options_eval = target_options_def getitem_prepared option_value_def parse_eval

lemmas box_eval = content_box_def without_margin_def nonzero_def pydiv_opt_def pydiv_def

lemma resize_svg_None:
  assumes "resize_svg tree opts = (tree', None)"
  shows "\<exists>w h v0 v1 v2 v3 m a b.
           source_geometry tree = Inr (w, h, (v0, v1, v2, v3))
         \<and> target_options w h (prepare_options opts) = Inr (m, a, b)"
proof (cases "source_geometry tree")
  case (Inl e)
  with assms show ?thesis by (simp add: resize_svg_source_error)
next
  case (Inr g)
  obtain w h v0 v1 v2 v3 where g: "g = (w, h, (v0, v1, v2, v3))" by (cases g) auto
  show ?thesis
  proof (cases "target_options w h (prepare_options opts)")
    case (Inl e)
    with assms Inr g show ?thesis by (simp add: resize_svg_options_error)
  next
    case r: (Inr t)
    obtain m a b where t: "t = (m, a, b)" by (cases t) auto
    from Inr g r t show ?thesis by blast
  qed
qed

subsection \<open>Errors leave the document as it was\<close>

text \<open>
  Claim C9. Whenever \<^verbatim>\<open>resize_svg\<close> raises, the document is unchanged: no attribute has
  been written and no subtree appended. Every raise (missing width or height, unusable
  width and height, a length that does not parse in the document or in the options)
  happens before the first write of line 119, and with exact arithmetic no division
  after it can fail.
\<close>

theorem resize_svg_error_unchanged:
  assumes "resize_svg tree opts = (tree', Some e)"
  shows "tree' = as_read tree"
proof (cases "source_geometry tree")
  case (Inl e')
  with assms show ?thesis by (simp add: resize_svg_source_error)
next
  case (Inr g)
  obtain w h v0 v1 v2 v3 where g: "g = (w, h, (v0, v1, v2, v3))" by (cases g) auto
  show ?thesis
  proof (cases "target_options w h (prepare_options opts)")
    case (Inl e')
    with assms Inr g show ?thesis by (simp add: resize_svg_options_error)
  next
    case r: (Inr t)
    obtain m a b where t: "t = (m, a, b)" by (cases t) auto
    from resize_svg_completes[OF Inr[unfolded g] r[unfolded t]] assms
    show ?thesis by (auto split: if_splits)
  qed
qed

theorem resize_svg_error_unchanged_witness:
  "resize_svg (Element ''svg'' [] [(''width'', ''100px''), (''height'', ''50px'')] [])
              [''margin'' \<mapsto> PyStr ''wide'']
   = (Element ''svg'' [] [(''width'', [Lit ''100px'']), (''height'', [Lit ''50px''])] [],
      Some (UnknownLengthFormat ''wide''))"
proof -
  let ?D = "Element ''svg'' [] [(''width'', ''100px''), (''height'', ''50px'')] []"
  let ?O = "[''margin'' \<mapsto> PyStr ''wide'']"
  have sg: "source_geometry ?D = Inr (100, 50, (0, 0, 100, 50))"
    by (simp add: source_eval)
  have to: "target_options 100 50 (prepare_options ?O) = Inl (UnknownLengthFormat ''wide'')"
    by (simp add: options_eval)
  have r: "resize_svg ?D ?O = (fst (resize_svg ?D ?O), Some (UnknownLengthFormat ''wide''))"
    by (simp add: resize_svg_options_error[OF sg to])
  from resize_svg_error_unchanged[OF r] r show ?thesis
    by (simp add: as_read_def)
qed

lemma parse_length_falsy: "\<not> truthy v \<Longrightarrow> parse_length v u = Inr 0"
  by (simp add: parse_length_def)

lemma resize_svg_result:
  assumes sg: "source_geometry tree = Inr (w, h, (v0, v1, v2, v3))"
    and to: "target_options w h (prepare_options opts) = Inr (m, a, b)"
    and cb: "content_box w h m a b = Inr (Some tw, Some th)"
  shows "\<exists>p tree'. place (v0, v1, v2, v3) tw th m = Inr p
         \<and> tw \<noteq> 0 \<and> th \<noteq> 0 \<and> v3 \<noteq> 0
         \<and> resize_svg tree opts = (tree', None)
         \<and> map_of (attrib tree') ''width'' = Some [Num (tw + m * 2), Lit ''px'']
         \<and> map_of (attrib tree') ''height'' = Some [Num (th + m * 2), Lit ''px'']
         \<and> map_of (attrib tree') ''viewBox'' =
              Some [Num (v0 - vb_margin p - offsetx p), Lit '' '',
                    Num (v1 - vb_margin p - offsety p), Lit '' '',
                    Num (page_width p + vb_margin p * 2), Lit '' '',
                    Num (page_height p + vb_margin p * 2)]
         \<and> children tree' = children (as_read tree) @
              (if truthy (option_value opts ''frame'' (PyBool False))
               then [frame_layer (v0, v1, v2, v3) p] else [])"
proof -
  from resize_svg_completes[OF sg to] cb obtain p where
    nz: "tw \<noteq> 0" "th \<noteq> 0" "v3 \<noteq> 0" and
    p: "place (v0, v1, v2, v3) tw th m = Inr p" and
    r: "resize_svg tree opts =
       (if truthy (option_value opts ''frame'' (PyBool False))
        then (append_child (frame_layer (v0, v1, v2, v3) p)
                (written tree (v0, v1, v2, v3) m tw th p), None)
        else (written tree (v0, v1, v2, v3) m tw th p, None))"
    by auto
  show ?thesis
    using nz p r by (simp add: attrib_written append_child_sel children_written)
qed

subsection \<open>The content box and steps 7 and 8\<close>

lemma without_margin_spec: "without_margin d m t = spec_step7 d m t"
  by (cases t) (auto simp: without_margin_def spec_step7_def nonzero_def)

lemma content_box_step8_zero_unset:
  assumes "w \<noteq> 0" "h \<noteq> 0"
  shows "content_box w h m a b =
     (case step8_zero_unset w h (spec_step7 w m a) (spec_step7 h m b) of
        (tw, th) \<Rightarrow> Inr (Some tw, Some th))"
proof -
  obtain a' where a': "spec_step7 w m a = a'" by simp
  obtain b' where b': "spec_step7 h m b = b'" by simp
  show ?thesis
    unfolding content_box_def Let_def without_margin_spec a' b'
    using assms
    by (cases a'; cases b')
       (auto simp: nonzero_def unset_or_zero_def value_of_def step8_zero_unset_def
          pydiv_opt_def pydiv_def)
qed

lemma spec_step8_without_zero:
  assumes "a \<noteq> Some 0" "b \<noteq> Some 0"
  shows "spec_step8 w h a b = step8_zero_unset w h a b"
  using assms
  by (cases a; cases b)
     (auto simp: spec_step8_def step8_zero_unset_def unset_or_zero_def value_of_def)

text \<open>
  Claim C1, as amended. The content box the script computes is the one of steps 7 and 8
  with a zero target counted as unset: each resolved target that is negative is replaced
  by minus the value times the source dimension, each positive one has twice the margin
  subtracted and is clamped at 0; then, with both targets unset or zero, the box is the
  source width and height, and with exactly one set and not zero the other is derived so
  that \<open>twidth / theight\<close> is the source \<open>width / height\<close>. Where no target is zero after
  step 7 this is step 8 as the specification words it. The declared width and height
  written to the document are the box plus twice the margin. (A 100 by 50 document with
  only the width option \<^verbatim>\<open>210mm\<close> gets a content box of ratio 2 to 1.)
\<close>

theorem content_box_steps_7_8:
  assumes sg: "source_geometry tree = Inr (width, height, viewbox)"
    and to: "target_options width height (prepare_options opts) = Inr (margin, tw0, th0)"
  shows "\<exists>twidth theight tree'.
           step8_zero_unset width height
             (spec_step7 width margin tw0) (spec_step7 height margin th0) = (twidth, theight)
         \<and> content_box width height margin tw0 th0 = Inr (Some twidth, Some theight)
         \<and> (unset_or_zero (spec_step7 width margin tw0)
               \<noteq> unset_or_zero (spec_step7 height margin th0)
              \<longrightarrow> twidth / theight = width / height)
         \<and> (spec_step7 width margin tw0 \<noteq> Some 0 \<and> spec_step7 height margin th0 \<noteq> Some 0
              \<longrightarrow> spec_step8 width height
                    (spec_step7 width margin tw0) (spec_step7 height margin th0)
                  = (twidth, theight))
         \<and> resize_svg tree opts = (tree', None)
         \<and> map_of (attrib tree') ''width'' = Some [Num (twidth + margin * 2), Lit ''px'']
         \<and> map_of (attrib tree') ''height'' = Some [Num (theight + margin * 2), Lit ''px'']"
proof -
  obtain v0 v1 v2 v3 where vb: "viewbox = (v0, v1, v2, v3)" by (cases viewbox) auto
  from source_geometry_Inr[OF sg[unfolded vb]] have nz: "width \<noteq> 0" "height \<noteq> 0" by auto
  obtain twidth theight where
    s8: "step8_zero_unset width height
           (spec_step7 width margin tw0) (spec_step7 height margin th0) = (twidth, theight)"
    by (cases "step8_zero_unset width height
                 (spec_step7 width margin tw0) (spec_step7 height margin th0)")
  have cb: "content_box width height margin tw0 th0 = Inr (Some twidth, Some theight)"
    by (simp add: content_box_step8_zero_unset[OF nz] s8)
  have ratio: "twidth / theight = width / height"
    if "unset_or_zero (spec_step7 width margin tw0)
          \<noteq> unset_or_zero (spec_step7 height margin th0)"
    using that s8 nz
    by (auto simp: step8_zero_unset_def unset_or_zero_def value_of_def split: if_splits)
  have words: "spec_step8 width height
                 (spec_step7 width margin tw0) (spec_step7 height margin th0)
               = (twidth, theight)"
    if "spec_step7 width margin tw0 \<noteq> Some 0 \<and> spec_step7 height margin th0 \<noteq> Some 0"
    using that s8 by (simp add: spec_step8_without_zero)
  from resize_svg_completes[OF sg[unfolded vb] to] cb obtain p where
    "resize_svg tree opts =
       (if truthy (option_value opts ''frame'' (PyBool False))
        then (append_child (frame_layer (v0, v1, v2, v3) p)
                (written tree (v0, v1, v2, v3) margin twidth theight p), None)
        else (written tree (v0, v1, v2, v3) margin twidth theight p, None))"
    by auto
  then have "\<exists>tree'. resize_svg tree opts = (tree', None)
         \<and> map_of (attrib tree') ''width'' = Some [Num (twidth + margin * 2), Lit ''px'']
         \<and> map_of (attrib tree') ''height'' = Some [Num (theight + margin * 2), Lit ''px'']"
    by (simp add: attrib_written append_child_sel)
  with s8 cb ratio words show ?thesis by blast
qed

theorem content_box_steps_7_8_witness:
  "content_box 100 50 0 (Some (210 * 3.543307)) None
     = Inr (Some (210 * 3.543307), Some (105 * 3.543307))
   \<and> spec_step8 100 50 (spec_step7 100 0 (Some (210 * 3.543307))) (spec_step7 50 0 None)
     = (210 * 3.543307, 105 * 3.543307)
   \<and> (210 * 3.543307) / (105 * 3.543307) = (100 / 50 :: real)
   \<and> snd (resize_svg
       (Element ''svg'' [] [(''width'', ''100px''), (''height'', ''50px''), (''viewBox'', ''0 0 100 50'')] [])
       [''width'' \<mapsto> PyStr ''210mm'']) = None
   \<and> map_of (attrib (fst (resize_svg
       (Element ''svg'' [] [(''width'', ''100px''), (''height'', ''50px''), (''viewBox'', ''0 0 100 50'')] [])
       [''width'' \<mapsto> PyStr ''210mm'']))) ''height'' = Some [Num (105 * 3.543307), Lit ''px'']"
proof -
  let ?D = "Element ''svg'' [] [(''width'', ''100px''), (''height'', ''50px''), (''viewBox'', ''0 0 100 50'')] []"
  let ?O = "[''width'' \<mapsto> PyStr ''210mm'']"
  have sg: "source_geometry ?D = Inr (100, 50, (0, 0, 100, 50))"
    by (simp add: source_eval)
  have to: "target_options 100 50 (prepare_options ?O) = Inr (0, Some (210 * 3.543307), None)"
    by (simp add: options_eval)
  have s8: "step8_zero_unset 100 50 (spec_step7 100 0 (Some (210 * 3.543307))) (spec_step7 50 0 None)
            = (210 * 3.543307, 105 * 3.543307)"
    by (simp add: step8_zero_unset_def spec_step7_def unset_or_zero_def value_of_def)
  have u: "unset_or_zero (spec_step7 100 0 (Some (210 * 3.543307)))
           \<noteq> unset_or_zero (spec_step7 50 0 None)"
    by (simp add: spec_step7_def unset_or_zero_def)
  have nz: "spec_step7 100 0 (Some (210 * 3.543307)) \<noteq> Some 0 \<and> spec_step7 50 0 None \<noteq> Some 0"
    by (simp add: spec_step7_def)
  from content_box_steps_7_8[OF sg to] s8 u nz show ?thesis
    by auto
qed

text \<open>
  Claim C1 as stated takes step 8 as worded, where a target that step 7 clamps to 0 is
  still set. On a 100 by 50 document with the width option \<^verbatim>\<open>15px\<close> and the margin
  \<^verbatim>\<open>10px\<close>, step 7 gives the width 0 and step 8 as worded derives the height 0 from it, a
  box of 0 by 0; the script tests the truth value of \<^verbatim>\<open>twidth\<close> (line 109), takes the zero
  for unset and gives the box 100 by 50, declared as 120 by 70.
\<close>

theorem clamped_target_against_step_8:
  "target_options 100 50
     (prepare_options [''width'' \<mapsto> PyStr ''15px'', ''margin'' \<mapsto> PyStr ''10px''])
   = Inr (10, Some 15, None)
   \<and> spec_step7 100 10 (Some 15) = Some 0
   \<and> spec_step7 50 10 None = None
   \<and> spec_step8 100 50 (spec_step7 100 10 (Some 15)) (spec_step7 50 10 None) = (0, 0)
   \<and> content_box 100 50 10 (Some 15) None = Inr (Some 100, Some 50)
   \<and> resize_svg (Element ''svg'' [] [(''width'', ''100''), (''height'', ''50'')] [])
       [''width'' \<mapsto> PyStr ''15px'', ''margin'' \<mapsto> PyStr ''10px'']
     = (Element ''svg'' []
          [(''width'', [Num 120, Lit ''px'']), (''height'', [Num 70, Lit ''px'']),
           (''viewBox'', [Num (- 10), Lit '' '', Num (- 10), Lit '' '', Num 120, Lit '' '', Num 70])] [],
        None)"
proof -
  let ?D = "Element ''svg'' [] [(''width'', ''100''), (''height'', ''50'')] []"
  let ?O = "[''width'' \<mapsto> PyStr ''15px'', ''margin'' \<mapsto> PyStr ''10px'']"
  have sg: "source_geometry ?D = Inr (100, 50, (0, 0, 100, 50))"
    by (simp add: source_eval)
  have to: "target_options 100 50 (prepare_options ?O) = Inr (10, Some 15, None)"
    by (simp add: options_eval)
  have s7: "spec_step7 100 10 (Some 15) = Some 0" "spec_step7 50 10 None = None"
    by (simp_all add: spec_step7_def)
  have s8: "spec_step8 100 50 (spec_step7 100 10 (Some 15)) (spec_step7 50 10 None) = (0, 0)"
    by (simp add: s7 spec_step8_def)
  have cb: "content_box 100 50 10 (Some 15) None = Inr (Some 100, Some 50)"
    by (simp add: box_eval)
  have pl: "place (0, 0, 100, 50) 100 50 10
     = Inr \<lparr>page_width = 100, page_height = 50, offsetx = 0, offsety = 0, vb_margin = 10\<rparr>"
    by (simp add: place_def pydiv_def)
  have r: "resize_svg ?D ?O
     = (Element ''svg'' []
          [(''width'', [Num 120, Lit ''px'']), (''height'', [Num 70, Lit ''px'']),
           (''viewBox'', [Num (- 10), Lit '' '', Num (- 10), Lit '' '', Num 120, Lit '' '', Num 70])] [],
        None)"
    by (simp add: resize_svg_success[OF sg to cb pl] option_value_def written_def set_attr_def as_read_def)
  from to s7 s8 cb r show ?thesis by simp
qed

subsection \<open>A target of zero\<close>

lemma without_margin_comes_to_zero:
  "comes_to_zero margin t \<Longrightarrow> without_margin d margin t = Some 0"
  by (cases t) (auto simp: comes_to_zero_def without_margin_def nonzero_def max_def)

text \<open>
  Claim C10. A target value that is exactly zero is treated as an absent one. When the
  resolved width is 0, or is positive and clamped to 0 by the subtraction of twice the
  margin, the content box is the one computed with no width: the width derived from the
  height by the source aspect ratio, \<open>theight / height * width\<close>, when the height (after
  lines 103 to 107) is set and not zero, and the source width and height otherwise. The
  same holds for the height, derived as \<open>twidth / width * height\<close>. The content box never
  has a zero side, and the declared width and height written are the box plus twice the
  margin.
\<close>

theorem zero_target_counts_as_unset:
  assumes sg: "source_geometry tree = Inr (width, height, viewbox)"
    and to: "target_options width height (prepare_options opts) = Inr (margin, tw, th)"
  shows "(comes_to_zero margin tw \<longrightarrow>
            content_box width height margin tw th = content_box width height margin None th
          \<and> content_box width height margin tw th =
              (case without_margin height margin th of
                 None \<Rightarrow> Inr (Some width, Some height)
               | Some t \<Rightarrow>
                   if t = 0 then Inr (Some width, Some height)
                   else Inr (Some (t / height * width), Some t)))
       \<and> (comes_to_zero margin th \<longrightarrow>
            content_box width height margin tw th = content_box width height margin tw None
          \<and> content_box width height margin tw th =
              (case without_margin width margin tw of
                 None \<Rightarrow> Inr (Some width, Some height)
               | Some t \<Rightarrow>
                   if t = 0 then Inr (Some width, Some height)
                   else Inr (Some t, Some (t / width * height))))
       \<and> (\<exists>a b tree'.
            content_box width height margin tw th = Inr (Some a, Some b) \<and> a \<noteq> 0 \<and> b \<noteq> 0
          \<and> resize_svg tree opts = (tree', None)
          \<and> map_of (attrib tree') ''width'' = Some [Num (a + margin * 2), Lit ''px'']
          \<and> map_of (attrib tree') ''height'' = Some [Num (b + margin * 2), Lit ''px''])"
proof -
  obtain v0 v1 v2 v3 where vb: "viewbox = (v0, v1, v2, v3)" by (cases viewbox) auto
  note sg' = sg[unfolded vb]
  from source_geometry_Inr[OF sg'] have nz: "width \<noteq> 0" "height \<noteq> 0" by auto
  have n: "without_margin d margin None = None" for d
    by (simp add: without_margin_def nonzero_def)
  have 1: "content_box width height margin tw th = content_box width height margin None th
          \<and> content_box width height margin tw th =
              (case without_margin height margin th of
                 None \<Rightarrow> Inr (Some width, Some height)
               | Some t \<Rightarrow>
                   if t = 0 then Inr (Some width, Some height)
                   else Inr (Some (t / height * width), Some t))"
    if "comes_to_zero margin tw"
    unfolding content_box_def Let_def without_margin_comes_to_zero[OF that] n
    using nz
    by (cases "without_margin height margin th") (simp_all add: nonzero_def pydiv_opt_def pydiv_def)
  have 2: "content_box width height margin tw th = content_box width height margin tw None
          \<and> content_box width height margin tw th =
              (case without_margin width margin tw of
                 None \<Rightarrow> Inr (Some width, Some height)
               | Some t \<Rightarrow>
                   if t = 0 then Inr (Some width, Some height)
                   else Inr (Some t, Some (t / width * height)))"
    if "comes_to_zero margin th"
    unfolding content_box_def Let_def without_margin_comes_to_zero[OF that] n
    using nz
    by (cases "without_margin width margin tw") (simp_all add: nonzero_def pydiv_opt_def pydiv_def)
  from content_box_total[OF nz] obtain a b where
    cb: "content_box width height margin tw th = Inr (Some a, Some b)" and ab: "a \<noteq> 0" "b \<noteq> 0"
    by blast
  from resize_svg_result[OF sg' to cb] obtain tree' where
    "resize_svg tree opts = (tree', None)"
    "map_of (attrib tree') ''width'' = Some [Num (a + margin * 2), Lit ''px'']"
    "map_of (attrib tree') ''height'' = Some [Num (b + margin * 2), Lit ''px'']"
    by blast
  with cb ab 1 2 show ?thesis by blast
qed

theorem zero_target_counts_as_unset_witness:
  "content_box 100 50 0 (Some 0) (Some 200) = Inr (Some 400, Some 200)
   \<and> content_box 100 50 0 None (Some 200) = Inr (Some 400, Some 200)
   \<and> map_of (attrib (fst (resize_svg
       (Element ''svg'' [] [(''width'', ''100''), (''height'', ''50'')] [])
       [''width'' \<mapsto> PyStr ''0'', ''height'' \<mapsto> PyStr ''200px'']))) ''width''
     = Some [Num 400, Lit ''px'']
   \<and> content_box 100 50 10 (Some 300) (Some 15) = Inr (Some 280, Some 140)
   \<and> content_box 100 50 10 (Some 300) None = Inr (Some 280, Some 140)
   \<and> map_of (attrib (fst (resize_svg
       (Element ''svg'' [] [(''width'', ''100''), (''height'', ''50'')] [])
       [''width'' \<mapsto> PyStr ''300px'', ''height'' \<mapsto> PyStr ''15px'',
        ''margin'' \<mapsto> PyStr ''10px'']))) ''height''
     = Some [Num 160, Lit ''px'']
   \<and> content_box 100 50 10 (Some 15) None = Inr (Some 100, Some 50)"
proof -
  let ?D = "Element ''svg'' [] [(''width'', ''100''), (''height'', ''50'')] []"
  let ?O1 = "[''width'' \<mapsto> PyStr ''0'', ''height'' \<mapsto> PyStr ''200px'']"
  let ?O2 = "[''width'' \<mapsto> PyStr ''300px'', ''height'' \<mapsto> PyStr ''15px'',
              ''margin'' \<mapsto> PyStr ''10px'']"
  let ?O3 = "[''width'' \<mapsto> PyStr ''15px'', ''margin'' \<mapsto> PyStr ''10px'']"
  have sg: "source_geometry ?D = Inr (100, 50, (0, 0, 100, 50))"
    by (simp add: source_eval)
  have to1: "target_options 100 50 (prepare_options ?O1) = Inr (0, Some 0, Some 200)"
    by (simp add: options_eval)
  have to2: "target_options 100 50 (prepare_options ?O2) = Inr (10, Some 300, Some 15)"
    by (simp add: options_eval)
  have to3: "target_options 100 50 (prepare_options ?O3) = Inr (10, Some 15, None)"
    by (simp add: options_eval)
  have z1: "comes_to_zero 0 (Some 0)" and z2: "comes_to_zero 10 (Some 15)"
    by (simp_all add: comes_to_zero_def)
  have w1: "without_margin 50 0 (Some 200) = Some 200"
    and w2: "without_margin 100 10 (Some 300) = Some 280"
    and w3: "without_margin 50 10 None = None"
    by (simp_all add: without_margin_def nonzero_def)
  note t1 = zero_target_counts_as_unset[OF sg to1]
  from t1 z1
  have e1: "content_box 100 50 0 (Some 0) (Some 200) = content_box 100 50 0 None (Some 200)"
    by blast
  from t1 z1
  have "content_box 100 50 0 (Some 0) (Some 200) =
          (case without_margin 50 0 (Some 200) of
             None \<Rightarrow> Inr (Some 100, Some 50)
           | Some t \<Rightarrow>
               if t = 0 then Inr (Some 100, Some 50)
               else Inr (Some (t / 50 * 100), Some t))"
    by blast
  then have c1: "content_box 100 50 0 (Some 0) (Some 200) = Inr (Some 400, Some 200)"
    by (simp add: w1)
  from t1 obtain a1 b1 tree1 where
    "content_box 100 50 0 (Some 0) (Some 200) = Inr (Some a1, Some b1)"
    "resize_svg ?D ?O1 = (tree1, None)"
    "map_of (attrib tree1) ''width'' = Some [Num (a1 + 0 * 2), Lit ''px'']"
    by blast
  with c1 have r1: "map_of (attrib (fst (resize_svg ?D ?O1))) ''width'' = Some [Num 400, Lit ''px'']"
    by simp
  from e1 c1 r1
  have a: "content_box 100 50 0 (Some 0) (Some 200) = Inr (Some 400, Some 200)
         \<and> content_box 100 50 0 None (Some 200) = Inr (Some 400, Some 200)
         \<and> map_of (attrib (fst (resize_svg ?D ?O1))) ''width'' = Some [Num 400, Lit ''px'']"
    by simp
  note t2 = zero_target_counts_as_unset[OF sg to2]
  from t2 z2
  have e2: "content_box 100 50 10 (Some 300) (Some 15) = content_box 100 50 10 (Some 300) None"
    by blast
  from t2 z2
  have "content_box 100 50 10 (Some 300) (Some 15) =
          (case without_margin 100 10 (Some 300) of
             None \<Rightarrow> Inr (Some 100, Some 50)
           | Some t \<Rightarrow>
               if t = 0 then Inr (Some 100, Some 50)
               else Inr (Some t, Some (t / 100 * 50)))"
    by blast
  then have c2: "content_box 100 50 10 (Some 300) (Some 15) = Inr (Some 280, Some 140)"
    by (simp add: w2)
  from t2 obtain a2 b2 tree2 where
    "content_box 100 50 10 (Some 300) (Some 15) = Inr (Some a2, Some b2)"
    "resize_svg ?D ?O2 = (tree2, None)"
    "map_of (attrib tree2) ''height'' = Some [Num (b2 + 10 * 2), Lit ''px'']"
    by blast
  with c2 have r2: "map_of (attrib (fst (resize_svg ?D ?O2))) ''height'' = Some [Num 160, Lit ''px'']"
    by simp
  from e2 c2 r2
  have b: "content_box 100 50 10 (Some 300) (Some 15) = Inr (Some 280, Some 140)
         \<and> content_box 100 50 10 (Some 300) None = Inr (Some 280, Some 140)
         \<and> map_of (attrib (fst (resize_svg ?D ?O2))) ''height'' = Some [Num 160, Lit ''px'']"
    by simp
  from zero_target_counts_as_unset[OF sg to3] z2
  have "content_box 100 50 10 (Some 15) None =
          (case without_margin 50 10 None of
             None \<Rightarrow> Inr (Some 100, Some 50)
           | Some t \<Rightarrow>
               if t = 0 then Inr (Some 100, Some 50)
               else Inr (Some (t / 50 * 100), Some t))"
    by blast
  then have c: "content_box 100 50 10 (Some 15) None = Inr (Some 100, Some 50)"
    by (simp add: w3)
  from a b c show ?thesis by simp
qed

subsection \<open>The order of the size options\<close>

text \<open>
  Claim C4. The target box is resolved from width and height first, then longest, then
  shortest, a later rule overwriting an earlier one on the same axis: the target width is
  the shortest option when it is set and the source width is the smaller dimension, else
  the longest option when it is set and the source width is the larger one, else the
  width option; the target height likewise, where longest and shortest both go to the
  height when the source width and height are equal. So when longest and shortest are
  both set and fall on the same axis, the value of shortest is kept.
\<close>

theorem target_precedence:
  assumes "target_options width height (prepare_options opts) = Inr (margin, twidth, theight)"
  shows "\<exists>w h l s.
           option_length opts ''width'' = Inr w \<and> option_length opts ''height'' = Inr h
         \<and> option_length opts ''longest'' = Inr l \<and> option_length opts ''shortest'' = Inr s
         \<and> twidth = (if is_set opts ''shortest'' \<and> width < height then Some s
                      else if is_set opts ''longest'' \<and> width > height then Some l
                      else if is_set opts ''width'' then Some w else None)
         \<and> theight = (if is_set opts ''shortest'' \<and> \<not> width < height then Some s
                       else if is_set opts ''longest'' \<and> \<not> width > height then Some l
                       else if is_set opts ''height'' then Some h else None)"
proof -
  let ?W = "option_value opts ''width'' PyNone"
  let ?H = "option_value opts ''height'' PyNone"
  let ?L = "option_value opts ''longest'' PyNone"
  let ?S = "option_value opts ''shortest'' PyNone"
  have pw: "\<exists>w. parse_length ?W ''mm'' = Inr w"
    using assms by (cases "truthy ?W")
      (auto simp: target_options_def getitem_prepared ebind_eq_Inr parse_length_falsy)
  have ph: "\<exists>h. parse_length ?H ''mm'' = Inr h"
    using assms by (cases "truthy ?H")
      (auto simp: target_options_def getitem_prepared ebind_eq_Inr parse_length_falsy)
  have pl: "\<exists>l. parse_length ?L ''mm'' = Inr l"
    using assms by (cases "truthy ?L")
      (auto simp: target_options_def getitem_prepared ebind_eq_Inr parse_length_falsy)
  have ps: "\<exists>s. parse_length ?S ''mm'' = Inr s"
    using assms by (cases "truthy ?S")
      (auto simp: target_options_def getitem_prepared ebind_eq_Inr parse_length_falsy)
  from pw ph pl ps obtain w h l s where
    p: "parse_length ?W ''mm'' = Inr w" "parse_length ?H ''mm'' = Inr h"
       "parse_length ?L ''mm'' = Inr l" "parse_length ?S ''mm'' = Inr s"
    by blast
  have "twidth = (if truthy ?S \<and> width < height then Some s
                  else if truthy ?L \<and> width > height then Some l
                  else if truthy ?W then Some w else None)
      \<and> theight = (if truthy ?S \<and> \<not> width < height then Some s
                    else if truthy ?L \<and> \<not> width > height then Some l
                    else if truthy ?H then Some h else None)"
    using assms p
    by (cases "truthy ?W"; cases "truthy ?H"; cases "truthy ?L"; cases "truthy ?S")
       (auto simp: target_options_def getitem_prepared ebind_eq_Inr split: if_splits)
  with p show ?thesis
    unfolding is_set_def option_length_def by blast
qed

theorem target_precedence_witness:
  "target_options 100 100
     (prepare_options [''width'' \<mapsto> PyStr ''30px'', ''longest'' \<mapsto> PyStr ''10px'',
                       ''shortest'' \<mapsto> PyStr ''20px''])
   = Inr (0, Some 30, Some 20)
   \<and> is_set [''width'' \<mapsto> PyStr ''30px'', ''longest'' \<mapsto> PyStr ''10px'',
              ''shortest'' \<mapsto> PyStr ''20px''] ''longest''
   \<and> option_length [''width'' \<mapsto> PyStr ''30px'', ''longest'' \<mapsto> PyStr ''10px'',
                     ''shortest'' \<mapsto> PyStr ''20px''] ''shortest'' = Inr 20"
proof -
  let ?O = "[''width'' \<mapsto> PyStr ''30px'', ''longest'' \<mapsto> PyStr ''10px'',
             ''shortest'' \<mapsto> PyStr ''20px'']"
  have to: "target_options 100 100 (prepare_options ?O) = Inr (0, Some 30, Some 20)"
    by (simp add: options_eval)
  have s: "is_set ?O ''shortest''" "is_set ?O ''longest''"
    by (simp_all add: is_set_def option_value_def)
  from target_precedence[OF to] obtain s where
    "option_length ?O ''shortest'' = Inr s"
    "Some 20 = (if is_set ?O ''shortest'' \<and> \<not> (100::real) < 100 then Some s else None)"
    using s by auto
  with to s show ?thesis by simp
qed

lemma wider_target_offset:
  fixes tw th v2 v3 :: real
  assumes "tw / th > v2 / v3"
  shows "0 < v3 \<Longrightarrow> 0 < (v3 / th * tw - v2) / 2" and "v3 < 0 \<Longrightarrow> (v3 / th * tw - v2) / 2 < 0"
proof -
  have e: "v3 / th * tw = v3 * (tw / th)" by simp
  { assume p: "0 < v3"
    have "v3 * (v2 / v3) < v3 * (tw / th)" using assms p by (rule mult_strict_left_mono)
    with p show "0 < (v3 / th * tw - v2) / 2" unfolding e by simp }
  { assume n: "v3 < 0"
    have "v3 * (tw / th) < v3 * (v2 / v3)" using assms n by (rule mult_strict_left_mono_neg)
    with n show "(v3 / th * tw - v2) / 2 < 0" unfolding e by simp }
qed

subsection \<open>Placement and the new viewBox\<close>

text \<open>
  Claim C2, as amended. Whenever \<^verbatim>\<open>resize_svg\<close> succeeds: when
  \<open>twidth / theight > viewbox.width / viewbox.height\<close>, \<open>page_width\<close> is
  \<open>viewbox.height / theight * twidth\<close>, \<open>offsetx\<close> is \<open>(page_width - viewbox.width) / 2\<close>,
  \<open>offsety\<close> is 0 and \<open>page_height\<close> is \<open>viewbox.height\<close>; here \<open>offsetx\<close> is positive
  when \<open>viewbox.height\<close> is positive, and negative when it is negative (a viewBox whose
  width and height are both negative passes the test of line 63). Otherwise \<open>page_height\<close>
  is \<open>viewbox.width / twidth * theight\<close>, \<open>offsety\<close> is \<open>(page_height - viewbox.height) / 2\<close>,
  \<open>offsetx\<close> is 0 and \<open>page_width\<close> is \<open>viewbox.width\<close>. With
  \<open>vb_margin = page_width / twidth * margin\<close>, the viewBox written is
  \<open>viewbox.x - vb_margin - offsetx\<close>, \<open>viewbox.y - vb_margin - offsety\<close>,
  \<open>page_width + 2 * vb_margin\<close>, \<open>page_height + 2 * vb_margin\<close>.
\<close>

theorem placement_and_viewbox:
  assumes "resize_svg tree opts = (tree', None)"
  shows "\<exists>width height v0 v1 v2 v3 margin tw0 th0 twidth theight p.
           source_geometry tree = Inr (width, height, (v0, v1, v2, v3))
         \<and> target_options width height (prepare_options opts) = Inr (margin, tw0, th0)
         \<and> content_box width height margin tw0 th0 = Inr (Some twidth, Some theight)
         \<and> place (v0, v1, v2, v3) twidth theight margin = Inr p
         \<and> (if twidth / theight > v2 / v3
             then page_width p = v3 / theight * twidth
                \<and> offsetx p = (page_width p - v2) / 2 \<and> offsety p = 0
                \<and> page_height p = v3
                \<and> (0 < v3 \<longrightarrow> 0 < offsetx p) \<and> (v3 < 0 \<longrightarrow> offsetx p < 0)
             else page_height p = v2 / twidth * theight
                \<and> offsety p = (page_height p - v3) / 2 \<and> offsetx p = 0
                \<and> page_width p = v2)
         \<and> vb_margin p = page_width p / twidth * margin
         \<and> map_of (attrib tree') ''viewBox'' =
              Some [Num (v0 - vb_margin p - offsetx p), Lit '' '',
                    Num (v1 - vb_margin p - offsety p), Lit '' '',
                    Num (page_width p + vb_margin p * 2), Lit '' '',
                    Num (page_height p + vb_margin p * 2)]"
proof -
  from resize_svg_None[OF assms] obtain width height v0 v1 v2 v3 margin tw0 th0 where
    sg: "source_geometry tree = Inr (width, height, (v0, v1, v2, v3))" and
    to: "target_options width height (prepare_options opts) = Inr (margin, tw0, th0)"
    by blast
  from resize_svg_completes[OF sg to] obtain twidth theight where
    cb: "content_box width height margin tw0 th0 = Inr (Some twidth, Some theight)"
    by blast
  from resize_svg_result[OF sg to cb] assms obtain p where
    nz: "twidth \<noteq> 0" "theight \<noteq> 0" "v3 \<noteq> 0" and
    p: "place (v0, v1, v2, v3) twidth theight margin = Inr p" and
    a: "map_of (attrib tree') ''viewBox'' =
              Some [Num (v0 - vb_margin p - offsetx p), Lit '' '',
                    Num (v1 - vb_margin p - offsety p), Lit '' '',
                    Num (page_width p + vb_margin p * 2), Lit '' '',
                    Num (page_height p + vb_margin p * 2)]"
    by auto
  have f: "(if twidth / theight > v2 / v3
             then page_width p = v3 / theight * twidth
                \<and> offsetx p = (page_width p - v2) / 2 \<and> offsety p = 0
                \<and> page_height p = v3
                \<and> (0 < v3 \<longrightarrow> 0 < offsetx p) \<and> (v3 < 0 \<longrightarrow> offsetx p < 0)
             else page_height p = v2 / twidth * theight
                \<and> offsety p = (page_height p - v3) / 2 \<and> offsetx p = 0
                \<and> page_width p = v2)
         \<and> vb_margin p = page_width p / twidth * margin"
  proof (cases "twidth / theight > v2 / v3")
    case True
    from p True have "p = \<lparr>page_width = v3 / theight * twidth, page_height = v3,
                offsetx = (v3 / theight * twidth - v2) / 2, offsety = 0,
                vb_margin = v3 / theight * twidth / twidth * margin\<rparr>"
      by (simp add: place_total[OF nz])
    with True wider_target_offset[OF True] show ?thesis by simp
  next
    case False
    from p False have "p = \<lparr>page_width = v2, page_height = v2 / twidth * theight,
                offsetx = 0, offsety = (v2 / twidth * theight - v3) / 2,
                vb_margin = v2 / twidth * margin\<rparr>"
      by (simp add: place_total[OF nz])
    with False show ?thesis by simp
  qed
  from sg to cb p f a show ?thesis by blast
qed

theorem placement_and_viewbox_witness:
  "map_of (attrib (fst (resize_svg
      (Element ''svg'' [] [(''width'', ''100''), (''height'', ''50''), (''viewBox'', ''0 0 100 100'')] [])
      Map.empty))) ''viewBox''
   = Some [Num (- 50), Lit '' '', Num 0, Lit '' '', Num 200, Lit '' '', Num 100]
   \<and> map_of (attrib (fst (resize_svg
      (Element ''svg'' [] [(''width'', ''300''), (''height'', ''100''), (''viewBox'', ''0 0 -100 -50'')] [])
      Map.empty))) ''viewBox''
   = Some [Num 25, Lit '' '', Num 0, Lit '' '', Num (- 150), Lit '' '', Num (- 50)]"
proof -
  let ?D1 = "Element ''svg'' [] [(''width'', ''100''), (''height'', ''50''), (''viewBox'', ''0 0 100 100'')] []"
  let ?D2 = "Element ''svg'' [] [(''width'', ''300''), (''height'', ''100''), (''viewBox'', ''0 0 -100 -50'')] []"
  have sg1: "source_geometry ?D1 = Inr (100, 50, (0, 0, 100, 100))"
    by (simp add: source_eval)
  have to1: "target_options 100 50 (prepare_options Map.empty) = Inr (0, None, None)"
    by (simp add: options_eval)
  have cb1: "content_box 100 50 0 None None = Inr (Some 100, Some 50)"
    by (simp add: box_eval)
  from resize_svg_result[OF sg1 to1 cb1]
  have r1: "resize_svg ?D1 Map.empty = (fst (resize_svg ?D1 Map.empty), None)" by auto
  have w1: "map_of (attrib (fst (resize_svg ?D1 Map.empty))) ''viewBox''
            = Some [Num (- 50), Lit '' '', Num 0, Lit '' '', Num 200, Lit '' '', Num 100]"
    using placement_and_viewbox[OF r1] by (auto simp: sg1 to1 cb1)
  have sg2: "source_geometry ?D2 = Inr (300, 100, (0, 0, - 100, - 50))"
    by (simp add: source_eval)
  have to2: "target_options 300 100 (prepare_options Map.empty) = Inr (0, None, None)"
    by (simp add: options_eval)
  have cb2: "content_box 300 100 0 None None = Inr (Some 300, Some 100)"
    by (simp add: box_eval)
  from resize_svg_result[OF sg2 to2 cb2]
  have r2: "resize_svg ?D2 Map.empty = (fst (resize_svg ?D2 Map.empty), None)" by auto
  have w2: "map_of (attrib (fst (resize_svg ?D2 Map.empty))) ''viewBox''
            = Some [Num 25, Lit '' '', Num 0, Lit '' '', Num (- 150), Lit '' '', Num (- 50)]"
    using placement_and_viewbox[OF r2] by (auto simp: sg2 to2 cb2)
  from w1 w2 show ?thesis by simp
qed

text \<open>
  Claim C2 as stated asks for a positive \<open>offsetx\<close> on every wider target. A document of
  300 by 100 with the viewBox \<^verbatim>\<open>0 0 -100 -50\<close> and no option has the wider target
  (3 against 2), and its \<open>offsetx\<close> is \<open>- 25\<close>.
\<close>

theorem wider_target_negative_offset:
  "source_geometry
     (Element ''svg'' [] [(''width'', ''300''), (''height'', ''100''), (''viewBox'', ''0 0 -100 -50'')] [])
   = Inr (300, 100, (0, 0, - 100, - 50))
   \<and> target_options 300 100 (prepare_options Map.empty) = Inr (0, None, None)
   \<and> content_box 300 100 0 None None = Inr (Some 300, Some 100)
   \<and> (- 100 / - 50 :: real) < 300 / 100
   \<and> place (0, 0, - 100, - 50) 300 100 0
       = Inr \<lparr>page_width = - 150, page_height = - 50, offsetx = - 25, offsety = 0, vb_margin = 0\<rparr>
   \<and> resize_svg
       (Element ''svg'' [] [(''width'', ''300''), (''height'', ''100''), (''viewBox'', ''0 0 -100 -50'')] [])
       Map.empty
     = (Element ''svg'' []
          [(''width'', [Num 300, Lit ''px'']), (''height'', [Num 100, Lit ''px'']),
           (''viewBox'', [Num 25, Lit '' '', Num 0, Lit '' '', Num (- 150), Lit '' '', Num (- 50)])] [],
        None)"
proof -
  let ?D = "Element ''svg'' [] [(''width'', ''300''), (''height'', ''100''), (''viewBox'', ''0 0 -100 -50'')] []"
  have sg: "source_geometry ?D = Inr (300, 100, (0, 0, - 100, - 50))"
    by (simp add: source_eval)
  have to: "target_options 300 100 (prepare_options Map.empty) = Inr (0, None, None)"
    by (simp add: options_eval)
  have cb: "content_box 300 100 0 None None = Inr (Some 300, Some 100)"
    by (simp add: box_eval)
  have pl: "place (0, 0, - 100, - 50) 300 100 0
       = Inr \<lparr>page_width = - 150, page_height = - 50, offsetx = - 25, offsety = 0, vb_margin = 0\<rparr>"
    by (simp add: place_def pydiv_def)
  have r: "resize_svg ?D Map.empty
     = (Element ''svg'' []
          [(''width'', [Num 300, Lit ''px'']), (''height'', [Num 100, Lit ''px'']),
           (''viewBox'', [Num 25, Lit '' '', Num 0, Lit '' '', Num (- 150), Lit '' '', Num (- 50)])] [],
        None)"
    by (simp add: resize_svg_success[OF sg to cb pl] option_value_def written_def set_attr_def as_read_def)
  from sg to cb pl r show ?thesis by simp
qed

lemma option_value_upd:
  "option_value (opts(k \<mapsto> v)) k' d = (if k' = k then v else option_value opts k' d)"
  by (simp add: option_value_def)

lemma target_options_margin:
  assumes "target_options w h (prepare_options opts) = Inr (m, a, b)"
    and "parse_length (PyStr m2) ''mm'' = Inr m'"
  shows "target_options w h (prepare_options (opts(''margin'' \<mapsto> PyStr m2))) = Inr (m', a, b)"
proof -
  let ?W = "option_value opts ''width'' PyNone"
  let ?H = "option_value opts ''height'' PyNone"
  let ?L = "option_value opts ''longest'' PyNone"
  let ?S = "option_value opts ''shortest'' PyNone"
  let ?rest = "\<lambda>margin.
     ebind (if truthy ?W then ebind (parse_length ?W ''mm'') (\<lambda>v. Inr (Some v))
            else Inr None) (\<lambda>twidth.
     ebind (if truthy ?H then ebind (parse_length ?H ''mm'') (\<lambda>v. Inr (Some v))
            else Inr None) (\<lambda>theight.
     ebind (if truthy ?L
            then ebind (parse_length ?L ''mm'') (\<lambda>value.
                   Inr (if w > h then (Some value, theight)
                        else (twidth, Some value)))
            else Inr (twidth, theight)) (\<lambda>(twidth, theight).
     ebind (if truthy ?S
            then ebind (parse_length ?S ''mm'') (\<lambda>value.
                   Inr (if w < h then (Some value, theight)
                        else (twidth, Some value)))
            else Inr (twidth, theight)) (\<lambda>(twidth, theight).
       Inr (margin :: real, twidth, theight)))))"
  have shape: "?rest x = Inr (y, a', b') \<Longrightarrow> y = x \<and> ?rest x' = Inr (x', a', b')" for x x' y a' b'
    by (auto simp: ebind_eq_Inr split: if_splits prod.splits)
  from assms(1) obtain m0 where "?rest m0 = Inr (m, a, b)"
    by (auto simp: target_options_def getitem_prepared ebind_eq_Inr)
  from shape[OF this, of m'] have "?rest m' = Inr (m', a, b)" by simp
  with assms(2) show ?thesis
    by (simp add: target_options_def getitem_prepared option_value_upd)
qed

lemma content_box_margin:
  assumes "\<not> absolute a" "\<not> absolute b"
  shows "content_box w h m a b = content_box w h m' a b"
proof -
  have "without_margin d m t = without_margin d m' t" if "\<not> absolute t" for d t
    using that by (cases t) (auto simp: without_margin_def absolute_def nonzero_def)
  with assms show ?thesis by (simp add: content_box_def)
qed

subsection \<open>The margin and the declared size\<close>

text \<open>
  Claim C5, as amended. For every document and every fixed set of the other options whose
  resolved target width and height are not absolute lengths (each is absent, zero or a
  percentage), increasing the margin by \<open>delta\<close> increases the declared width and the
  declared height by \<open>2 * delta\<close> each and leaves the content box \<open>twidth\<close>, \<open>theight\<close>
  unchanged.
\<close>

theorem margin_adds_to_declared_size:
  assumes sg: "source_geometry tree = Inr (width, height, viewbox)"
    and to: "target_options width height (prepare_options opts) = Inr (margin, tw0, th0)"
    and na: "\<not> absolute tw0" "\<not> absolute th0"
    and m2: "parse_length (PyStr m2) ''mm'' = Inr (margin + delta)"
  shows "\<exists>twidth theight t1 t2.
           content_box width height margin tw0 th0 = Inr (Some twidth, Some theight)
         \<and> content_box width height (margin + delta) tw0 th0 = Inr (Some twidth, Some theight)
         \<and> resize_svg tree opts = (t1, None)
         \<and> resize_svg tree (opts(''margin'' \<mapsto> PyStr m2)) = (t2, None)
         \<and> map_of (attrib t1) ''width'' = Some [Num (twidth + margin * 2), Lit ''px'']
         \<and> map_of (attrib t2) ''width'' = Some [Num (twidth + margin * 2 + 2 * delta), Lit ''px'']
         \<and> map_of (attrib t1) ''height'' = Some [Num (theight + margin * 2), Lit ''px'']
         \<and> map_of (attrib t2) ''height'' = Some [Num (theight + margin * 2 + 2 * delta), Lit ''px'']"
proof -
  obtain v0 v1 v2 v3 where vb: "viewbox = (v0, v1, v2, v3)" by (cases viewbox) auto
  note sg' = sg[unfolded vb]
  from resize_svg_completes[OF sg' to] obtain twidth theight where
    cb: "content_box width height margin tw0 th0 = Inr (Some twidth, Some theight)" by blast
  from cb content_box_margin[OF na, of width height margin "margin + delta"]
  have cb2: "content_box width height (margin + delta) tw0 th0 = Inr (Some twidth, Some theight)"
    by simp
  note to2 = target_options_margin[OF to m2]
  from resize_svg_result[OF sg' to cb] obtain t1 where
    t1: "resize_svg tree opts = (t1, None)"
        "map_of (attrib t1) ''width'' = Some [Num (twidth + margin * 2), Lit ''px'']"
        "map_of (attrib t1) ''height'' = Some [Num (theight + margin * 2), Lit ''px'']"
    by blast
  from resize_svg_result[OF sg' to2 cb2] obtain t2 where
    t2: "resize_svg tree (opts(''margin'' \<mapsto> PyStr m2)) = (t2, None)"
        "map_of (attrib t2) ''width'' = Some [Num (twidth + (margin + delta) * 2), Lit ''px'']"
        "map_of (attrib t2) ''height'' = Some [Num (theight + (margin + delta) * 2), Lit ''px'']"
    by blast
  have e: "x + (margin + delta) * 2 = x + margin * 2 + 2 * delta" for x :: real
    by (simp add: algebra_simps)
  from cb cb2 t1 t2 show ?thesis unfolding e by blast
qed

theorem margin_adds_to_declared_size_witness:
  "map_of (attrib (fst (resize_svg
      (Element ''svg'' [] [(''width'', ''100''), (''height'', ''50'')] [])
      [''width'' \<mapsto> PyStr ''200%'', ''margin'' \<mapsto> PyStr ''10px'']))) ''width''
     = Some [Num 220, Lit ''px'']
   \<and> map_of (attrib (fst (resize_svg
      (Element ''svg'' [] [(''width'', ''100''), (''height'', ''50'')] [])
      [''width'' \<mapsto> PyStr ''200%'', ''margin'' \<mapsto> PyStr ''15px'']))) ''width''
     = Some [Num 230, Lit ''px'']
   \<and> map_of (attrib (fst (resize_svg
      (Element ''svg'' [] [(''width'', ''100''), (''height'', ''50'')] [])
      [''width'' \<mapsto> PyStr ''200%'', ''margin'' \<mapsto> PyStr ''15px'']))) ''height''
     = Some [Num 130, Lit ''px'']"
proof -
  let ?D = "Element ''svg'' [] [(''width'', ''100''), (''height'', ''50'')] []"
  let ?O = "[''width'' \<mapsto> PyStr ''200%'', ''margin'' \<mapsto> PyStr ''10px'']"
  have sg: "source_geometry ?D = Inr (100, 50, (0, 0, 100, 50))"
    by (simp add: source_eval)
  have to: "target_options 100 50 (prepare_options ?O) = Inr (10, Some (- 2), None)"
    by (simp add: options_eval)
  have na: "\<not> absolute (Some (- 2))" "\<not> absolute None"
    by (simp_all add: absolute_def)
  have m2: "parse_length (PyStr ''15px'') ''mm'' = Inr (10 + 5)"
    by (simp add: parse_eval)
  have cb: "content_box 100 50 10 (Some (- 2)) None = Inr (Some 200, Some 100)"
    by (simp add: box_eval)
  have o: "?O(''margin'' \<mapsto> PyStr ''15px'') = [''width'' \<mapsto> PyStr ''200%'', ''margin'' \<mapsto> PyStr ''15px'']"
    by simp
  from margin_adds_to_declared_size[OF sg to na m2] cb show ?thesis
    unfolding o by auto
qed

text \<open>
  Claim C5 as stated covers every set of options. An absolute target includes the margins
  (line 102 subtracts them, line 119 adds them back): with the width option \<^verbatim>\<open>100px\<close> on
  a 100 by 50 document, the margins \<^verbatim>\<open>0px\<close> and \<^verbatim>\<open>10px\<close> both give the declared width
  100, the declared height goes from 50 to 60, and the content box shrinks from 100 by 50
  to 80 by 40.
\<close>

theorem absolute_target_absorbs_margin:
  "resize_svg (Element ''svg'' [] [(''width'', ''100''), (''height'', ''50'')] [])
     [''width'' \<mapsto> PyStr ''100px'', ''margin'' \<mapsto> PyStr ''0px'']
   = (Element ''svg'' []
        [(''width'', [Num 100, Lit ''px'']), (''height'', [Num 50, Lit ''px'']),
         (''viewBox'', [Num 0, Lit '' '', Num 0, Lit '' '', Num 100, Lit '' '', Num 50])] [], None)
   \<and> resize_svg (Element ''svg'' [] [(''width'', ''100''), (''height'', ''50'')] [])
     [''width'' \<mapsto> PyStr ''100px'', ''margin'' \<mapsto> PyStr ''10px'']
   = (Element ''svg'' []
        [(''width'', [Num 100, Lit ''px'']), (''height'', [Num 60, Lit ''px'']),
         (''viewBox'', [Num (- 12.5), Lit '' '', Num (- 12.5), Lit '' '', Num 125, Lit '' '', Num 75])] [], None)
   \<and> content_box 100 50 0 (Some 100) None = Inr (Some 100, Some 50)
   \<and> content_box 100 50 10 (Some 100) None = Inr (Some 80, Some 40)
   \<and> (100 :: real) \<noteq> 100 + 2 * 10"
proof -
  let ?D = "Element ''svg'' [] [(''width'', ''100''), (''height'', ''50'')] []"
  have sg: "source_geometry ?D = Inr (100, 50, (0, 0, 100, 50))"
    by (simp add: source_eval)
  have to0: "target_options 100 50
      (prepare_options [''width'' \<mapsto> PyStr ''100px'', ''margin'' \<mapsto> PyStr ''0px''])
      = Inr (0, Some 100, None)"
    by (simp add: options_eval)
  have to1: "target_options 100 50
      (prepare_options [''width'' \<mapsto> PyStr ''100px'', ''margin'' \<mapsto> PyStr ''10px''])
      = Inr (10, Some 100, None)"
    by (simp add: options_eval)
  have cb0: "content_box 100 50 0 (Some 100) None = Inr (Some 100, Some 50)"
    by (simp add: box_eval)
  have cb1: "content_box 100 50 10 (Some 100) None = Inr (Some 80, Some 40)"
    by (simp add: box_eval)
  have pl0: "place (0, 0, 100, 50) 100 50 0
     = Inr \<lparr>page_width = 100, page_height = 50, offsetx = 0, offsety = 0, vb_margin = 0\<rparr>"
    by (simp add: place_def pydiv_def)
  have pl1: "place (0, 0, 100, 50) 80 40 10
     = Inr \<lparr>page_width = 100, page_height = 50, offsetx = 0, offsety = 0, vb_margin = 12.5\<rparr>"
    by (simp add: place_def pydiv_def)
  have r0: "resize_svg ?D [''width'' \<mapsto> PyStr ''100px'', ''margin'' \<mapsto> PyStr ''0px'']
   = (Element ''svg'' []
        [(''width'', [Num 100, Lit ''px'']), (''height'', [Num 50, Lit ''px'']),
         (''viewBox'', [Num 0, Lit '' '', Num 0, Lit '' '', Num 100, Lit '' '', Num 50])] [], None)"
    by (simp add: resize_svg_success[OF sg to0 cb0 pl0] option_value_def written_def set_attr_def as_read_def)
  have r1: "resize_svg ?D [''width'' \<mapsto> PyStr ''100px'', ''margin'' \<mapsto> PyStr ''10px'']
   = (Element ''svg'' []
        [(''width'', [Num 100, Lit ''px'']), (''height'', [Num 60, Lit ''px'']),
         (''viewBox'', [Num (- 12.5), Lit '' '', Num (- 12.5), Lit '' '', Num 125, Lit '' '', Num 75])] [], None)"
    by (simp add: resize_svg_success[OF sg to1 cb1 pl1] option_value_def written_def set_attr_def as_read_def)
  from r0 r1 cb0 cb1 show ?thesis by simp
qed

lemma get_missing: "k \<notin> set (keys e) \<Longrightarrow> get e k = PyNone"
proof -
  assume "k \<notin> set (keys e)"
  then have "map_of (attrib e) k = None"
    by (simp add: keys_def map_of_eq_None_iff)
  then show ?thesis by (simp add: get_def)
qed

lemma positive_length_present:
  assumes "parse_length (get e k) u = Inr x" "0 < x"
  shows "k \<in> set (keys e)"
proof (rule ccontr)
  assume "k \<notin> set (keys e)"
  then have "get e k = PyNone" by (rule get_missing)
  then have "parse_length (get e k) u = Inr 0" by (simp add: parse_length_falsy)
  with assms show False by simp
qed

subsection \<open>No size option and no margin\<close>

text \<open>
  Claim C6, as amended. For every document with positive declared width and height and a
  usable viewBox, resizing with none of the width, height, longest and shortest options
  set and a margin of zero writes the original width and height (as lengths, in pixels);
  and when the viewBox has the aspect ratio of the declared size
  (\<open>viewbox.width / viewbox.height = width / height\<close>) it writes the original four
  viewBox values.
\<close>

theorem passthrough_without_options:
  assumes w: "parse_length (get tree ''width'') ''px'' = Inr width" "0 < width"
    and h: "parse_length (get tree ''height'') ''px'' = Inr height" "0 < height"
    and vb: "read_viewbox tree = Inr (Some (v0, v1, v2, v3))"
    and no: "\<not> is_set opts ''width''" "\<not> is_set opts ''height''"
            "\<not> is_set opts ''longest''" "\<not> is_set opts ''shortest''"
    and m: "parse_length (option_value opts ''margin'' (PyStr ''0'')) ''mm'' = Inr 0"
  shows "\<exists>tree'. resize_svg tree opts = (tree', None)
         \<and> map_of (attrib tree') ''width'' = Some [Num width, Lit ''px'']
         \<and> map_of (attrib tree') ''height'' = Some [Num height, Lit ''px'']
         \<and> (v2 / v3 = width / height \<longrightarrow>
              map_of (attrib tree') ''viewBox'' =
                Some [Num v0, Lit '' '', Num v1, Lit '' '', Num v2, Lit '' '', Num v3])"
proof -
  have kw: "''width'' \<in> set (keys tree)"
    using w by (rule positive_length_present)
  have kh: "''height'' \<in> set (keys tree)"
    using h by (rule positive_length_present)
  have sg: "source_geometry tree = Inr (width, height, (v0, v1, v2, v3))"
    using kw kh w h vb by (simp add: source_geometry_def)
  have to: "target_options width height (prepare_options opts) = Inr (0, None, None)"
    using no m by (simp add: target_options_def getitem_prepared is_set_def)
  have cb: "content_box width height 0 None None = Inr (Some width, Some height)"
    using w(2) h(2) by (simp add: box_eval)
  from resize_svg_result[OF sg to cb] obtain p tree' where
    nz: "v3 \<noteq> 0" and
    p: "place (v0, v1, v2, v3) width height 0 = Inr p" and
    r: "resize_svg tree opts = (tree', None)"
       "map_of (attrib tree') ''width'' = Some [Num (width + 0 * 2), Lit ''px'']"
       "map_of (attrib tree') ''height'' = Some [Num (height + 0 * 2), Lit ''px'']"
       "map_of (attrib tree') ''viewBox'' =
              Some [Num (v0 - vb_margin p - offsetx p), Lit '' '',
                    Num (v1 - vb_margin p - offsety p), Lit '' '',
                    Num (page_width p + vb_margin p * 2), Lit '' '',
                    Num (page_height p + vb_margin p * 2)]"
    by blast
  have same: "map_of (attrib tree') ''viewBox'' =
                Some [Num v0, Lit '' '', Num v1, Lit '' '', Num v2, Lit '' '', Num v3]"
    if ratio: "v2 / v3 = width / height"
  proof -
    have "v2 * height = width * v3"
      using ratio nz h(2) by (simp add: frac_eq_eq)
    then have ph: "v2 / width * height = v3"
      using w(2) by (simp add: field_simps)
    have "p = \<lparr>page_width = v2, page_height = v3, offsetx = 0, offsety = 0, vb_margin = 0\<rparr>"
      using p w(2) h(2) nz ratio ph by (simp add: place_total)
    with r show ?thesis by simp
  qed
  from r same show ?thesis by auto
qed

theorem passthrough_without_options_witness:
  "resize_svg
     (Element ''svg'' [] [(''width'', ''200''), (''height'', ''100''), (''viewBox'', ''5 5 100 50'')] [])
     Map.empty
   = (fst (resize_svg
     (Element ''svg'' [] [(''width'', ''200''), (''height'', ''100''), (''viewBox'', ''5 5 100 50'')] [])
     Map.empty), None)
   \<and> map_of (attrib (fst (resize_svg
     (Element ''svg'' [] [(''width'', ''200''), (''height'', ''100''), (''viewBox'', ''5 5 100 50'')] [])
     Map.empty))) ''viewBox''
     = Some [Num 5, Lit '' '', Num 5, Lit '' '', Num 100, Lit '' '', Num 50]
   \<and> map_of (attrib (fst (resize_svg
     (Element ''svg'' [] [(''width'', ''200''), (''height'', ''100''), (''viewBox'', ''5 5 100 50'')] [])
     Map.empty))) ''width''
     = Some [Num 200, Lit ''px'']
   \<and> map_of (attrib (fst (resize_svg
     (Element ''svg'' [] [(''width'', ''100''), (''height'', ''50''), (''viewBox'', ''0 0 100 100'')] [])
     Map.empty))) ''width''
     = Some [Num 100, Lit ''px'']"
proof -
  let ?D = "Element ''svg'' [] [(''width'', ''200''), (''height'', ''100''), (''viewBox'', ''5 5 100 50'')] []"
  let ?E = "Element ''svg'' [] [(''width'', ''100''), (''height'', ''50''), (''viewBox'', ''0 0 100 100'')] []"
  have w: "parse_length (get ?D ''width'') ''px'' = Inr 200" "(0::real) < 200"
    by (simp_all add: get_def parse_eval)
  have h: "parse_length (get ?D ''height'') ''px'' = Inr 100" "(0::real) < 100"
    by (simp_all add: get_def parse_eval)
  have vb: "read_viewbox ?D = Inr (Some (5, 5, 100, 50))"
    by (simp add: source_eval)
  have w': "parse_length (get ?E ''width'') ''px'' = Inr 100" "(0::real) < 100"
    by (simp_all add: get_def parse_eval)
  have h': "parse_length (get ?E ''height'') ''px'' = Inr 50" "(0::real) < 50"
    by (simp_all add: get_def parse_eval)
  have vb': "read_viewbox ?E = Inr (Some (0, 0, 100, 100))"
    by (simp add: source_eval)
  have no: "\<not> is_set Map.empty ''width''" "\<not> is_set Map.empty ''height''"
            "\<not> is_set Map.empty ''longest''" "\<not> is_set Map.empty ''shortest''"
    by (simp_all add: is_set_def option_value_def)
  have m: "parse_length (option_value Map.empty ''margin'' (PyStr ''0'')) ''mm'' = Inr 0"
    by (simp add: option_value_def parse_eval)
  have ratio: "(100::real) / 50 = 200 / 100" by simp
  from passthrough_without_options[OF w h vb no m] ratio
  have a: "resize_svg ?D Map.empty = (fst (resize_svg ?D Map.empty), None)
     \<and> map_of (attrib (fst (resize_svg ?D Map.empty))) ''viewBox''
         = Some [Num 5, Lit '' '', Num 5, Lit '' '', Num 100, Lit '' '', Num 50]
     \<and> map_of (attrib (fst (resize_svg ?D Map.empty))) ''width'' = Some [Num 200, Lit ''px'']"
    by auto
  from passthrough_without_options[OF w' h' vb' no m]
  have b: "map_of (attrib (fst (resize_svg ?E Map.empty))) ''width'' = Some [Num 100, Lit ''px'']"
    by auto
  from a b show ?thesis by simp
qed

text \<open>
  Claim C6 as stated covers every usable viewBox. When the aspect ratio of the viewBox
  differs from that of the declared size, the placement of lines 123 to 131 widens the
  viewBox and centres the content: a 100 by 50 document with the viewBox \<^verbatim>\<open>0 0 100 100\<close>
  gets the viewBox \<open>- 50\<close>, \<open>0\<close>, \<open>200\<close>, \<open>100\<close>.
\<close>

theorem passthrough_changes_viewbox:
  "parse_length (get
     (Element ''svg'' [] [(''width'', ''100''), (''height'', ''50''), (''viewBox'', ''0 0 100 100'')] [])
     ''width'') ''px'' = Inr 100
   \<and> parse_length (get
     (Element ''svg'' [] [(''width'', ''100''), (''height'', ''50''), (''viewBox'', ''0 0 100 100'')] [])
     ''height'') ''px'' = Inr 50
   \<and> read_viewbox
     (Element ''svg'' [] [(''width'', ''100''), (''height'', ''50''), (''viewBox'', ''0 0 100 100'')] [])
     = Inr (Some (0, 0, 100, 100))
   \<and> resize_svg
     (Element ''svg'' [] [(''width'', ''100''), (''height'', ''50''), (''viewBox'', ''0 0 100 100'')] [])
     Map.empty
   = (Element ''svg'' []
        [(''width'', [Num 100, Lit ''px'']), (''height'', [Num 50, Lit ''px'']),
         (''viewBox'', [Num (- 50), Lit '' '', Num 0, Lit '' '', Num 200, Lit '' '', Num 100])] [],
      None)"
proof -
  let ?D = "Element ''svg'' [] [(''width'', ''100''), (''height'', ''50''), (''viewBox'', ''0 0 100 100'')] []"
  have w: "parse_length (get ?D ''width'') ''px'' = Inr 100"
    by (simp add: get_def parse_eval)
  have h: "parse_length (get ?D ''height'') ''px'' = Inr 50"
    by (simp add: get_def parse_eval)
  have vb: "read_viewbox ?D = Inr (Some (0, 0, 100, 100))"
    by (simp add: source_eval)
  have sg: "source_geometry ?D = Inr (100, 50, (0, 0, 100, 100))"
    by (simp add: source_eval)
  have to: "target_options 100 50 (prepare_options Map.empty) = Inr (0, None, None)"
    by (simp add: options_eval)
  have cb: "content_box 100 50 0 None None = Inr (Some 100, Some 50)"
    by (simp add: box_eval)
  have pl: "place (0, 0, 100, 100) 100 50 0
     = Inr \<lparr>page_width = 200, page_height = 100, offsetx = 50, offsety = 0, vb_margin = 0\<rparr>"
    by (simp add: place_def pydiv_def)
  have r: "resize_svg ?D Map.empty
   = (Element ''svg'' []
        [(''width'', [Num 100, Lit ''px'']), (''height'', [Num 50, Lit ''px'']),
         (''viewBox'', [Num (- 50), Lit '' '', Num 0, Lit '' '', Num 200, Lit '' '', Num 100])] [],
      None)"
    by (simp add: resize_svg_success[OF sg to cb pl] option_value_def written_def set_attr_def as_read_def)
  from w h vb r show ?thesis by simp
qed

subsection \<open>The frame\<close>

text \<open>
  Claim C7, evaluated on the script. With the frame option one group holding one path is
  appended, filled white and without stroke, of two closed subpaths, the inner one the
  original viewBox. The claim puts the corner of the outer rectangle \<open>bleed\<close> outside the
  corner of the new viewBox, \<open>viewbox.x - vb_margin - offsetx - bleed\<close>; line 145 starts it
  at \<open>- viewbox.x - vb_margin - offsetx - bleed\<close> (and likewise for \<open>y\<close>), the sign of the
  origin reversed against line 133. For the viewBox \<^verbatim>\<open>10 20 100 50\<close> the new viewBox
  starts at 10, 20 and the outer rectangle at \<open>- 10.5\<close>, \<open>- 20.5\<close> instead of 9.5, 19.5.
\<close>

theorem frame_misplaced:
  "resize_svg
     (Element ''svg'' [] [(''width'', ''100''), (''height'', ''50''), (''viewBox'', ''10 20 100 50'')] [])
     [''frame'' \<mapsto> PyBool True]
   = (Element ''svg'' []
        [(''width'', [Num 100, Lit ''px'']), (''height'', [Num 50, Lit ''px'']),
         (''viewBox'', [Num 10, Lit '' '', Num 20, Lit '' '', Num 100, Lit '' '', Num 50])]
        [Element ''g''
           [(''inkscape'', ''http://www.inkscape.org/namespaces/inkscape''),
            (''sodipodi'', ''http://sodipodi.sourceforge.net/DTD/sodipodi-0.dtd'')]
           [(''{http://www.inkscape.org/namespaces/inkscape}groupmode'', [Lit ''layer'']),
            (''{http://www.inkscape.org/namespaces/inkscape}label'', [Lit ''Frame'']),
            (''{http://sodipodi.sourceforge.net/DTD/sodipodi-0.dtd}insensitive'', [Lit ''true''])]
           [Element ''path'' []
              [(''style'', [Lit ''fill:#ffffff;stroke:none'']),
               (''d'', [Lit ''M '', Num (- 10.5), Lit '' '', Num (- 20.5),
                        Lit '' v '', Num 51, Lit '' h '', Num 101, Lit '' v -'', Num 51,
                        Lit '' z M '', Num 10, Lit '' '', Num 20, Lit '' h '', Num 100,
                        Lit '' v '', Num 50, Lit '' h -'', Num 100, Lit '' z''])]
              []]],
      None)"
proof -
  let ?D = "Element ''svg'' [] [(''width'', ''100''), (''height'', ''50''), (''viewBox'', ''10 20 100 50'')] []"
  have sg: "source_geometry ?D = Inr (100, 50, (10, 20, 100, 50))"
    by (simp add: source_eval)
  have to: "target_options 100 50 (prepare_options [''frame'' \<mapsto> PyBool True]) = Inr (0, None, None)"
    by (simp add: options_eval)
  have cb: "content_box 100 50 0 None None = Inr (Some 100, Some 50)"
    by (simp add: box_eval)
  have pl: "place (10, 20, 100, 50) 100 50 0
     = Inr \<lparr>page_width = 100, page_height = 50, offsetx = 0, offsety = 0, vb_margin = 0\<rparr>"
    by (simp add: place_def pydiv_def)
  show ?thesis
    by (simp add: resize_svg_success[OF sg to cb pl] option_value_def written_def set_attr_def
          as_read_def append_child_def frame_layer_def frame_path_def inkscape_ns_def sodipodi_ns_def)
qed

end
